theory Spec2Isabelle
  imports Complex_Main
begin

section \<open>Values of the browser and of the graphics library\<close>

text \<open>
  The development embeds \<^verbatim>\<open>src/app/services/engine.service.ts\<close>, the rendering
  service \<^verbatim>\<open>EngineService\<close>, and the \<^verbatim>\<open>ngOnInit\<close> of the two components that
  call it. JavaScript numbers are modelled by the reals they denote (the rounding of IEEE
  doubles is outside the model); the two results of a division that are no real number
  are written out. Objects and materials live in a store and are held by reference,
  since the service mutates objects that it shares with the scene graph, with closures
  and with the wheel list. A colour is the number it denotes (\<^verbatim>\<open>0xff0000\<close>, or the
  value \<^verbatim>\<open>#ff0000\<close> of a colour input). Of the graphics library, the constructors and
  the draw call are taken not to throw; what the orbit controls do to the camera on
  pointer events is not modelled.
\<close>

type_synonym ref = nat
type_synonym mref = nat
type_synonym color = nat

datatype js_error = TypeError

datatype number = Finite real | Infinity | NaN

text \<open>\<^verbatim>\<open>window.innerWidth / window.innerHeight\<close>: both are non-negative integers.\<close>

definition js_div :: "nat \<Rightarrow> nat \<Rightarrow> number" where
  "js_div w h =
     (if h \<noteq> 0 then Finite (real w / real h) else if w = 0 then NaN else Infinity)"

text \<open>The remainder \<^verbatim>\<open>x % y\<close> of JavaScript: the quotient is truncated towards zero.\<close>

definition js_rem :: "real \<Rightarrow> real \<Rightarrow> real" where
  "js_rem x y = x - y * of_int (if 0 \<le> x / y then \<lfloor>x / y\<rfloor> else \<lceil>x / y\<rceil>)"

datatype material_kind = MeshPhysicalMaterial | MeshStandardMaterial | MeshBasicMaterial

record material =
  kind :: material_kind
  color :: color
  metalness :: real
  roughness :: real
  clearcoat :: real
  clearcoatRoughness :: real
  transmission :: real
  transparent :: bool
  texture :: "string option"

text \<open>
  An \<^verbatim>\<open>Object3D\<close>: the fields the service reads or writes. \<open>material\<close> is the
  material a mesh refers to. The hierarchy of a loaded model is a tree of references.
\<close>

record object3d =
  name :: string
  material :: "mref option"
  rotation_x :: real
  position_z :: real
  renderOrder :: int

datatype tree = Tree (node: ref) (kids: "tree list")

record camera =
  fov :: real
  aspect :: number
  near :: real
  far :: real
  position :: "real \<times> real \<times> real"
  projectionMatrix :: "real \<times> number \<times> real \<times> real"

record renderer =
  render_canvas :: string
  alpha :: bool
  antialias :: bool
  pixelRatio :: real
  output_size :: "nat \<times> nat"
  outputEncoding :: string
  toneMapping :: string
  toneMappingExposure :: real

record scene =
  background :: "color option"
  environment :: "string option"
  fog :: "(color \<times> real \<times> real) option"
  children :: "tree list"

record controls =
  target :: "real \<times> real \<times> real"

text \<open>What a draw call \<^verbatim>\<open>renderer.render(scene, camera)\<close> was given.\<close>

record draw =
  drawn_scene :: scene
  drawn_camera :: camera

text \<open>
  The three materials and the shadow texture that the completion callback of
  \<^verbatim>\<open>loader.load\<close> closes over.
\<close>

record closure =
  bodyMaterial :: mref
  detailsMaterial :: mref
  glassMaterial :: mref
  shadow :: string

datatype event_target = Element string | Window

text \<open>The bodies of the listeners the service registers.\<close>

datatype handler = SetColor mref | CallRender | CallResize

datatype ready_state = Loading | Interactive | Complete

section \<open>The state: the service, the heap and the browser\<close>

record state =
  canvas :: "string option"
  renderer :: "renderer option"
  camera :: "camera option"
  scene :: "scene option"
  controls :: "controls option"
  grid :: "ref option"
  wheels :: "ref option list"
  frameId :: "nat option"
  objects :: "ref \<Rightarrow> object3d"
  next_object :: ref
  materials :: "mref \<Rightarrow> material"
  next_material :: mref
  element_ids :: "string list"
  listeners :: "(event_target \<times> string \<times> handler) list"
  readyState :: ready_state
  contentLoaded :: bool
  innerWidth :: nat
  innerHeight :: nat
  devicePixelRatio :: real
  frame_requests :: "nat list"
  next_request :: nat
  loads :: "closure list"
  draws :: "draw list"

text \<open>
  A call returns normally or throws; what it mutated before throwing stays mutated, so
  both outcomes carry a state.
\<close>

datatype outcome = Ok state | Throw js_error state

fun state_of :: "outcome \<Rightarrow> state" where
  "state_of (Ok s) = s"
| "state_of (Throw e s) = s"

fun and_then :: "outcome \<Rightarrow> (state \<Rightarrow> outcome) \<Rightarrow> outcome" where
  "and_then (Ok s) f = f s"
| "and_then (Throw e s) f = Throw e s"

section \<open>Browser and library calls\<close>

definition getElementById :: "state \<Rightarrow> string \<Rightarrow> string option" where
  "getElementById s i = (if i \<in> set (element_ids s) then Some i else None)"

definition addEventListener :: "event_target \<Rightarrow> string \<Rightarrow> handler \<Rightarrow> state \<Rightarrow> state" where
  "addEventListener t ty h s = s\<lparr>listeners := listeners s @ [(t, ty, h)]\<rparr>"

definition requestAnimationFrame :: "state \<Rightarrow> nat \<times> state" where
  "requestAnimationFrame s =
     (next_request s,
      s\<lparr>frame_requests := frame_requests s @ [next_request s],
        next_request := Suc (next_request s)\<rparr>)"

definition cancelAnimationFrame :: "nat \<Rightarrow> state \<Rightarrow> state" where
  "cancelAnimationFrame i s = s\<lparr>frame_requests := removeAll i (frame_requests s)\<rparr>"

definition new_material :: "material \<Rightarrow> state \<Rightarrow> state" where
  "new_material m s =
     s\<lparr>materials := (materials s)(next_material s := m),
       next_material := Suc (next_material s)\<rparr>"

definition new_object :: "object3d \<Rightarrow> state \<Rightarrow> state" where
  "new_object ob s =
     s\<lparr>objects := (objects s)(next_object s := ob),
       next_object := Suc (next_object s)\<rparr>"

text \<open>\<^verbatim>\<open>camera.updateProjectionMatrix()\<close>: the matrix is a function of these four fields.\<close>

definition updateProjectionMatrix :: "camera \<Rightarrow> camera" where
  "updateProjectionMatrix c = c\<lparr>projectionMatrix := (fov c, aspect c, near c, far c)\<rparr>"

definition setSize :: "nat \<Rightarrow> nat \<Rightarrow> renderer \<Rightarrow> renderer" where
  "setSize w h r = r\<lparr>output_size := (w, h)\<rparr>"

text \<open>
  \<^verbatim>\<open>Object3D.getObjectByName\<close>: the object itself when its name matches, otherwise the
  first match among its children, each searched in the same way.
\<close>

fun getObjectByName :: "(ref \<Rightarrow> object3d) \<Rightarrow> string \<Rightarrow> tree \<Rightarrow> ref option"
  and firstByName :: "(ref \<Rightarrow> object3d) \<Rightarrow> string \<Rightarrow> tree list \<Rightarrow> ref option" where
  "getObjectByName objs nm (Tree r ks) =
     (if name (objs r) = nm then Some r else firstByName objs nm ks)"
| "firstByName objs nm [] = None"
| "firstByName objs nm (k # ks) =
     (case getObjectByName objs nm k of
        Some r \<Rightarrow> Some r
      | None \<Rightarrow> firstByName objs nm ks)"

section \<open>The service\<close>

subsection \<open>ngOnDestroy\<close>

definition ngOnDestroy :: "state \<Rightarrow> outcome" where
  "ngOnDestroy s =
     (case frameId s of
        None \<Rightarrow> Ok s
      | Some i \<Rightarrow> Ok (cancelAnimationFrame i s))"

subsection \<open>render\<close>

text \<open>
  The loop over \<^verbatim>\<open>this.wheels\<close>. An entry that is \<^verbatim>\<open>undefined\<close> makes
  \<^verbatim>\<open>this.wheels[i].rotation\<close> throw; the wheels before it have been rotated.
\<close>

fun rotate_wheels :: "real \<Rightarrow> ref option list \<Rightarrow> state \<Rightarrow> outcome" where
  "rotate_wheels v [] s = Ok s"
| "rotate_wheels v (None # ws) s = Throw TypeError s"
| "rotate_wheels v (Some r # ws) s =
     rotate_wheels v ws (s\<lparr>objects := (objects s)(r := (objects s r)\<lparr>rotation_x := v\<rparr>)\<rparr>)"

definition scroll_grid :: "real \<Rightarrow> state \<Rightarrow> outcome" where
  "scroll_grid time s =
     (case grid s of
        None \<Rightarrow> Throw TypeError s
      | Some g \<Rightarrow>
          Ok (s\<lparr>objects := (objects s)(g := (objects s g)\<lparr>position_z := js_rem (- time) 5\<rparr>)\<rparr>))"

definition schedule_frame :: "state \<Rightarrow> outcome" where
  "schedule_frame s =
     (case requestAnimationFrame s of (i, s') \<Rightarrow> Ok (s'\<lparr>frameId := Some i\<rparr>))"

text \<open>
  \<^verbatim>\<open>this.renderer.render(this.scene, this.camera)\<close>: the call throws on a renderer that
  is \<^verbatim>\<open>undefined\<close>. The three fields are assigned together by \<open>createScene\<close>, so a
  scene or a camera that is missing is treated in the same way.
\<close>

definition draw_scene :: "state \<Rightarrow> outcome" where
  "draw_scene s =
     (case renderer s of
        None \<Rightarrow> Throw TypeError s
      | Some r \<Rightarrow>
          (case scene s of
             None \<Rightarrow> Throw TypeError s
           | Some sc \<Rightarrow>
               (case camera s of
                  None \<Rightarrow> Throw TypeError s
                | Some c \<Rightarrow>
                    Ok (s\<lparr>draws := draws s @ [\<lparr>drawn_scene = sc, drawn_camera = c\<rparr>]\<rparr>))))"

text \<open>\<open>now\<close> is what \<^verbatim>\<open>performance.now()\<close> returns, in milliseconds.\<close>

definition render :: "real \<Rightarrow> state \<Rightarrow> outcome" where
  "render now s =
     (let time = - now / 1000 in
      and_then (rotate_wheels (time * pi) (wheels s) s) (\<lambda>s.
      and_then (scroll_grid time s) (\<lambda>s.
      and_then (schedule_frame s) draw_scene)))"

subsection \<open>resize\<close>

definition resize :: "state \<Rightarrow> outcome" where
  "resize s =
     (let width = innerWidth s; height = innerHeight s in
      case camera s of
        None \<Rightarrow> Throw TypeError s
      | Some c \<Rightarrow>
          (let s1 = s\<lparr>camera := Some (updateProjectionMatrix (c\<lparr>aspect := js_div width height\<rparr>))\<rparr> in
           case renderer s1 of
             None \<Rightarrow> Throw TypeError s1
           | Some r \<Rightarrow> Ok (s1\<lparr>renderer := Some (setSize width height r)\<rparr>)))"

subsection \<open>createScene\<close>

text \<open>The three materials of lines 30 to 50 (colours 0xff0000, 0xffffff, 0xffffff).\<close>

definition body_parameters :: material where
  "body_parameters =
     \<lparr>kind = MeshPhysicalMaterial, color = 16711680, metalness = 0.6, roughness = 0.4,
      clearcoat = 0.05, clearcoatRoughness = 0.05, transmission = 0, transparent = False,
      texture = None\<rparr>"

definition details_parameters :: material where
  "details_parameters =
     \<lparr>kind = MeshStandardMaterial, color = 16777215, metalness = 1.0, roughness = 0.5,
      clearcoat = 0, clearcoatRoughness = 0, transmission = 0, transparent = False,
      texture = None\<rparr>"

definition glass_parameters :: material where
  "glass_parameters =
     \<lparr>kind = MeshPhysicalMaterial, color = 16777215, metalness = 0, roughness = 0.1,
      clearcoat = 0, clearcoatRoughness = 0, transmission = 0.9, transparent = True,
      texture = None\<rparr>"

text \<open>
  Lines 52 to 65. \<^verbatim>\<open>document.getElementById\<close> returns \<^verbatim>\<open>null\<close> for an absent
  element, and \<^verbatim>\<open>null.addEventListener\<close> throws a TypeError. The body input is bound
  on the event \<^verbatim>\<open>change\<close>, the other two on the event \<^verbatim>\<open>input\<close>.
\<close>

definition bind_color_inputs :: "mref \<Rightarrow> mref \<Rightarrow> mref \<Rightarrow> state \<Rightarrow> outcome" where
  "bind_color_inputs bodyM detailsM glassM s =
     (case getElementById s ''body-color'' of
        None \<Rightarrow> Throw TypeError s
      | Some bodyColorInput \<Rightarrow>
          (let s1 = addEventListener (Element bodyColorInput) ''change'' (SetColor bodyM) s in
           case getElementById s1 ''details-color'' of
             None \<Rightarrow> Throw TypeError s1
           | Some detailsColorInput \<Rightarrow>
               (let s2 = addEventListener (Element detailsColorInput) ''input''
                           (SetColor detailsM) s1 in
                case getElementById s2 ''glass-color'' of
                  None \<Rightarrow> Throw TypeError s2
                | Some glassColorInput \<Rightarrow>
                    Ok (addEventListener (Element glassColorInput) ''input''
                          (SetColor glassM) s2))))"

text \<open>\<^verbatim>\<open>this.scene.add(object)\<close>.\<close>

definition scene_add :: "tree \<Rightarrow> state \<Rightarrow> outcome" where
  "scene_add t s =
     (case scene s of
        None \<Rightarrow> Throw TypeError s
      | Some sc \<Rightarrow> Ok (s\<lparr>scene := Some (sc\<lparr>children := children sc @ [t]\<rparr>)\<rparr>))"

text \<open>Lines 67 to 79: the canvas and the renderer.\<close>

definition create_renderer :: "string \<Rightarrow> state \<Rightarrow> state" where
  "create_renderer cv s =
     (let s1 = s\<lparr>canvas := Some cv\<rparr> in
      s1\<lparr>renderer := Some
          \<lparr>render_canvas = cv, alpha = True, antialias = True,
           pixelRatio = devicePixelRatio s1,
           output_size = (innerWidth s1, innerHeight s1),
           outputEncoding = ''sRGBEncoding'',
           toneMapping = ''ACESFilmicToneMapping'',
           toneMappingExposure = 0.85\<rparr>\<rparr>)"

text \<open>Lines 82 to 93: the camera and the orbit controls.\<close>

definition create_camera :: "state \<Rightarrow> state" where
  "create_camera s =
     (let c = updateProjectionMatrix
                \<lparr>fov = 40, aspect = js_div (innerWidth s) (innerHeight s), near = 0.1,
                 far = 100, position = (0, 0, 0),
                 projectionMatrix = (40, js_div (innerWidth s) (innerHeight s), 0.1, 100)\<rparr>;
          s1 = s\<lparr>camera := Some (c\<lparr>position := (4.25, 1.4, - 4.5)\<rparr>)\<rparr>
      in s1\<lparr>controls := Some \<lparr>target = (0, 0.5, 0)\<rparr>\<rparr>)"

text \<open>Lines 96 to 106: the scene (background and fog 0xeeeeee) and the grid.\<close>

definition create_grid_scene :: "state \<Rightarrow> outcome" where
  "create_grid_scene s =
     (let s1 = s\<lparr>scene := Some
                  \<lparr>background = Some 15658734, environment = Some ''RoomEnvironment'',
                   fog = Some (15658734, 10, 50), children = []\<rparr>\<rparr>;
          g = next_object s1;
          s2 = new_object
                 \<lparr>name = [], material = None, rotation_x = 0, position_z = 0,
                  renderOrder = 0\<rparr> s1;
          s3 = s2\<lparr>grid := Some g\<rparr>
      in scene_add (Tree g []) s3)"

text \<open>
  Lines 109 to 117: the shadow texture and the request for the model. The completion
  callback stays pending with what it closes over.
\<close>

definition request_model :: "mref \<Rightarrow> mref \<Rightarrow> mref \<Rightarrow> state \<Rightarrow> outcome" where
  "request_model bodyM detailsM glassM s =
     Ok (s\<lparr>loads := loads s @
           [\<lparr>bodyMaterial = bodyM, detailsMaterial = detailsM, glassMaterial = glassM,
             shadow = ''assets/gltf/ferrari_ao.png''\<rparr>]\<rparr>)"

definition createScene :: "string \<Rightarrow> state \<Rightarrow> outcome" where
  "createScene cv s =
     (let bodyM = next_material s;
          s1 = new_material body_parameters s;
          detailsM = next_material s1;
          s2 = new_material details_parameters s1;
          glassM = next_material s2;
          s3 = new_material glass_parameters s2
      in and_then (bind_color_inputs bodyM detailsM glassM s3) (\<lambda>s.
         and_then (create_grid_scene (create_camera (create_renderer cv s)))
           (request_model bodyM detailsM glassM)))"

subsection \<open>The completion callback of the model request\<close>

text \<open>
  \<^verbatim>\<open>(<THREE.Mesh>carModel.getObjectByName(n)).material = m\<close>: the cast checks nothing,
  and assigning to a property of \<^verbatim>\<open>undefined\<close> throws a TypeError.
\<close>

definition with_material :: "ref \<Rightarrow> mref \<Rightarrow> (ref \<Rightarrow> object3d) \<Rightarrow> ref \<Rightarrow> object3d" where
  "with_material r m objs = objs(r := (objs r)\<lparr>material := Some m\<rparr>)"

definition set_material :: "tree \<Rightarrow> string \<Rightarrow> mref \<Rightarrow> state \<Rightarrow> outcome" where
  "set_material carModel nm m s =
     (case getObjectByName (objects s) nm carModel of
        None \<Rightarrow> Throw TypeError s
      | Some r \<Rightarrow> Ok (s\<lparr>objects := with_material r m (objects s)\<rparr>))"

text \<open>Lines 130 to 135: \<^verbatim>\<open>push\<close> appends what the four lookups return, found or not.\<close>

definition push_wheels :: "tree \<Rightarrow> state \<Rightarrow> state" where
  "push_wheels carModel s =
     s\<lparr>wheels := wheels s @
         [getObjectByName (objects s) ''wheel_fl'' carModel,
          getObjectByName (objects s) ''wheel_fr'' carModel,
          getObjectByName (objects s) ''wheel_rl'' carModel,
          getObjectByName (objects s) ''wheel_rr'' carModel]\<rparr>"

text \<open>Lines 138 to 150: the shadow plane, added to the car, and the car added to the scene.\<close>

definition shadow_parameters :: "string \<Rightarrow> material" where
  "shadow_parameters sh =
     \<lparr>kind = MeshBasicMaterial, color = 16777215, metalness = 0, roughness = 0,
      clearcoat = 0, clearcoatRoughness = 0, transmission = 0, transparent = True,
      texture = Some sh\<rparr>"

definition shadow_mesh :: "mref \<Rightarrow> object3d" where
  "shadow_mesh shadowM =
     \<lparr>name = [], material = Some shadowM, rotation_x = - pi / 2, position_z = 0,
      renderOrder = 2\<rparr>"

definition add_shadow :: "string \<Rightarrow> tree \<Rightarrow> state \<Rightarrow> outcome" where
  "add_shadow sh carModel s =
     (let shadowM = next_material s;
          s1 = new_material (shadow_parameters sh) s;
          mesh = next_object s1;
          s2 = new_object (shadow_mesh shadowM) s1
      in scene_add (Tree (node carModel) (kids carModel @ [Tree mesh []])) s2)"

text \<open>
  \<open>gltf\<close> is \<^verbatim>\<open>gltf.scene\<close>, the root of the loaded hierarchy; its objects are in the
  store. \<^verbatim>\<open>gltf.scene.children[0]\<close> is \<^verbatim>\<open>undefined\<close> when there is no child.
\<close>

definition on_load :: "closure \<Rightarrow> tree \<Rightarrow> state \<Rightarrow> outcome" where
  "on_load c gltf s =
     (case kids gltf of
        [] \<Rightarrow> Throw TypeError s
      | carModel # others \<Rightarrow>
          and_then (set_material carModel ''body'' (bodyMaterial c) s) (\<lambda>s.
          and_then (set_material carModel ''rim_fl'' (detailsMaterial c) s) (\<lambda>s.
          and_then (set_material carModel ''rim_fr'' (detailsMaterial c) s) (\<lambda>s.
          and_then (set_material carModel ''rim_rl'' (detailsMaterial c) s) (\<lambda>s.
          and_then (set_material carModel ''rim_rr'' (detailsMaterial c) s) (\<lambda>s.
          and_then (set_material carModel ''glass'' (glassMaterial c) s) (\<lambda>s.
          add_shadow (shadow c) carModel (push_wheels carModel s))))))))"

subsection \<open>animate\<close>

text \<open>\<^verbatim>\<open>ngZone.runOutsideAngular\<close> runs its argument at once; the zone is not modelled.\<close>

definition animate :: "real \<Rightarrow> state \<Rightarrow> outcome" where
  "animate now s =
     and_then
       (if readyState s \<noteq> Loading then render now s
        else Ok (addEventListener Window ''DOMContentLoaded'' CallRender s))
       (\<lambda>s. Ok (addEventListener Window ''resize'' CallResize s))"

subsection \<open>The component and the constructor\<close>

text \<open>\<^verbatim>\<open>CarComponent.ngOnInit\<close> and \<^verbatim>\<open>CubeComponent.ngOnInit\<close>, on the shared service.\<close>

definition ngOnInit :: "string \<Rightarrow> real \<Rightarrow> state \<Rightarrow> outcome" where
  "ngOnInit rendererCanvas now s = and_then (createScene rendererCanvas s) (animate now)"

text \<open>The field initialisers of the service: no wheel, no frame, everything else unassigned.\<close>

definition EngineService :: "state \<Rightarrow> state" where
  "EngineService s =
     s\<lparr>canvas := None, renderer := None, camera := None, scene := None,
       controls := None, grid := None, wheels := [], frameId := None\<rparr>"

section \<open>The event loop of the browser\<close>

record dom_event =
  event_target :: event_target
  event_type :: string
  event_value :: color

fun run_handler :: "handler \<Rightarrow> dom_event \<Rightarrow> real \<Rightarrow> state \<Rightarrow> outcome" where
  "run_handler (SetColor m) e now s =
     Ok (s\<lparr>materials := (materials s)(m := (materials s m)\<lparr>color := event_value e\<rparr>)\<rparr>)"
| "run_handler CallRender e now s = render now s"
| "run_handler CallResize e now s = resize s"

text \<open>
  The listeners registered when the dispatch starts run in the order of registration; an
  exception of one is reported and the next one runs.
\<close>

fun dispatch :: "(event_target \<times> string \<times> handler) list \<Rightarrow> dom_event \<Rightarrow> real \<Rightarrow> state \<Rightarrow> state" where
  "dispatch [] e now s = s"
| "dispatch ((t, ty, h) # ls) e now s =
     dispatch ls e now
       (if t = event_target e \<and> ty = event_type e then state_of (run_handler h e now s) else s)"

definition dispatchEvent :: "dom_event \<Rightarrow> real \<Rightarrow> state \<Rightarrow> state" where
  "dispatchEvent e now s = dispatch (listeners s) e now s"

text \<open>
  What the browser does between two calls of the program: a requested frame is run (every
  request of this program calls \<open>render\<close>), \<^verbatim>\<open>document.readyState\<close> changes, the
  event \<^verbatim>\<open>DOMContentLoaded\<close> is dispatched (once for a document, which has left the
  state \<^verbatim>\<open>loading\<close> by then), the window is resized, a colour input fires an event, or
  a requested model arrives, its materials and objects put in the store by the loader.
  The real number is the clock.
\<close>

datatype event =
    AnimationFrame nat real
  | ReadyStateChange ready_state
  | DOMContentLoaded real
  | WindowResized nat nat
  | ColorInput string string color
  | ModelLoaded nat "material list" "object3d list" tree

text \<open>The loader puts the materials and the objects of a parsed model in the store.\<close>

definition deliver :: "material list \<Rightarrow> object3d list \<Rightarrow> state \<Rightarrow> state" where
  "deliver ms obs s = fold new_object obs (fold new_material ms s)"

fun step :: "event \<Rightarrow> state \<Rightarrow> state" where
  "step (AnimationFrame i now) s =
     (if i \<in> set (frame_requests s)
      then state_of (render now (s\<lparr>frame_requests := removeAll i (frame_requests s)\<rparr>))
      else s)"
| "step (ReadyStateChange rs) s = s\<lparr>readyState := rs\<rparr>"
| "step (DOMContentLoaded now) s =
     (if contentLoaded s then s
      else dispatchEvent
             \<lparr>event_target = Window, event_type = ''DOMContentLoaded'', event_value = 0\<rparr>
             now
             (s\<lparr>contentLoaded := True,
                readyState := (if readyState s = Loading then Interactive else readyState s)\<rparr>))"
| "step (WindowResized w h) s =
     dispatchEvent \<lparr>event_target = Window, event_type = ''resize'', event_value = 0\<rparr> 0
       (s\<lparr>innerWidth := w, innerHeight := h\<rparr>)"
| "step (ColorInput i ty v) s =
     dispatchEvent \<lparr>event_target = Element i, event_type = ty, event_value = v\<rparr> 0 s"
| "step (ModelLoaded k ms obs gltf) s =
     (if k < length (loads s)
      then state_of
             (on_load (loads s ! k) gltf
                (deliver ms obs (s\<lparr>loads := take k (loads s) @ drop (Suc k) (loads s)\<rparr>)))
      else s)"

definition run :: "event list \<Rightarrow> state \<Rightarrow> state" where
  "run es s = fold step es s"

text \<open>Calls of \<open>render\<close> one after the other, at the given clock values.\<close>

fun renders :: "real list \<Rightarrow> state \<Rightarrow> outcome" where
  "renders [] s = Ok s"
| "renders (now # ts) s = and_then (render now s) (renders ts)"

text \<open>The references of a hierarchy.\<close>

fun refs :: "tree \<Rightarrow> ref list" where
  "refs (Tree r ks) = r # concat (map refs ks)"

section \<open>Notions used by the properties\<close>

fun returned :: "outcome \<Rightarrow> bool" where
  "returned (Ok s) = True"
| "returned (Throw e s) = False"

text \<open>
  In state \<open>s\<close>, the object that the model as loaded (store \<open>objs\<close>) holds under the
  name \<open>nm\<close> still has that name and refers to the material \<open>m\<close>.
\<close>

definition assigned :: "(ref \<Rightarrow> object3d) \<Rightarrow> tree \<Rightarrow> string \<Rightarrow> mref \<Rightarrow> state \<Rightarrow> bool" where
  "assigned objs carModel nm m s =
     (case getObjectByName objs nm carModel of
        None \<Rightarrow> False
      | Some r \<Rightarrow> name (objects s r) = nm \<and> material (objects s r) = Some m)"

text \<open>
  No listener can start a render loop any more: a listener that calls \<open>render\<close> is
  one that \<open>animate\<close> registered for \<^verbatim>\<open>DOMContentLoaded\<close>, and that event has been
  dispatched.
\<close>

definition unarmed :: "state \<Rightarrow> bool" where
  "unarmed s \<longleftrightarrow>
     (\<forall>l \<in> set (listeners s).
        snd (snd l) = CallRender \<longrightarrow>
          l = (Window, ''DOMContentLoaded'', CallRender) \<and> contentLoaded s)"

text \<open>
  One render loop: every pending frame request is the one recorded in \<open>frameId\<close>, and
  no listener can start another loop.
\<close>

definition single_loop :: "state \<Rightarrow> bool" where
  "single_loop s \<longleftrightarrow> set (frame_requests s) \<subseteq> set_option (frameId s) \<and> unarmed s"

text \<open>What the scheduling of frames and the draw calls depend on.\<close>

definition schedule :: "state \<Rightarrow> nat list \<times> nat \<times> nat option \<times> draw list \<times> bool \<times> (event_target \<times> string \<times> handler) list" where
  "schedule s =
     (frame_requests s, next_request s, frameId s, draws s, contentLoaded s, listeners s)"

text \<open>After a teardown: no frame is requested and nothing can call \<open>render\<close> any more.\<close>

definition quiet :: "state \<Rightarrow> bool" where
  "quiet s \<longleftrightarrow> frame_requests s = [] \<and> unarmed s"

text \<open>
  What the four lookups of lines 131 to 134 return on a car model: for each wheel name
  the object of that name, or \<^verbatim>\<open>undefined\<close> when the model has none.
\<close>

definition wheel_lookups :: "(ref \<Rightarrow> object3d) \<Rightarrow> tree \<Rightarrow> ref option list" where
  "wheel_lookups objs carModel =
     [getObjectByName objs ''wheel_fl'' carModel,
      getObjectByName objs ''wheel_fr'' carModel,
      getObjectByName objs ''wheel_rl'' carModel,
      getObjectByName objs ''wheel_rr'' carModel]"

text \<open>Of the objects \<open>rs\<close>, those whose material in \<open>s'\<close> is not their material in \<open>s\<close>.\<close>

definition replaced :: "state \<Rightarrow> state \<Rightarrow> ref list \<Rightarrow> ref list" where
  "replaced s s' rs = [r \<leftarrow> rs. material (objects s' r) \<noteq> material (objects s r)]"

section \<open>Example inputs\<close>

text \<open>
  A loaded page with the canvas and the three colour inputs, a window of 1280 by 720,
  an empty store and a service just constructed.
\<close>

definition page :: state where
  "page = EngineService
     \<lparr>canvas = None, renderer = None, camera = None, scene = None, controls = None,
      grid = None, wheels = [], frameId = None,
      objects = (\<lambda>r. \<lparr>name = [], material = None, rotation_x = 0, position_z = 0,
                        renderOrder = 0\<rparr>),
      next_object = 0,
      materials = (\<lambda>r. \<lparr>kind = MeshBasicMaterial, color = 0, metalness = 0,
                          roughness = 0, clearcoat = 0, clearcoatRoughness = 0,
                          transmission = 0, transparent = False, texture = None\<rparr>),
      next_material = 0,
      element_ids = [''rendererCanvas'', ''body-color'', ''details-color'', ''glass-color''],
      listeners = [], readyState = Complete, contentLoaded = True, innerWidth = 1280,
      innerHeight = 720,
      devicePixelRatio = 1, frame_requests = [], next_request = 1, loads = [],
      draws = []\<rparr>"

text \<open>
  A car model as the loader delivers it, its objects at the references from \<open>b\<close> on: a
  root, the car, and under the car the body, the glass and four wheels, each wheel with
  its rim. All its meshes refer to one default material \<open>m\<close>.
\<close>

definition part :: "mref \<Rightarrow> string \<Rightarrow> object3d" where
  "part m nm = \<lparr>name = nm, material = Some m, rotation_x = 0, position_z = 0, renderOrder = 0\<rparr>"

definition car_objects :: "mref \<Rightarrow> object3d list" where
  "car_objects m =
     [part m ''Scene'', part m ''ferrari'', part m ''body'', part m ''glass'',
      part m ''wheel_fl'', part m ''rim_fl'', part m ''wheel_fr'', part m ''rim_fr'',
      part m ''wheel_rl'', part m ''rim_rl'', part m ''wheel_rr'', part m ''rim_rr'']"

definition car_tree :: "ref \<Rightarrow> tree" where
  "car_tree b =
     Tree b [Tree (b + 1) [Tree (b + 2) [], Tree (b + 3) [],
                           Tree (b + 4) [Tree (b + 5) []], Tree (b + 6) [Tree (b + 7) []],
                           Tree (b + 8) [Tree (b + 9) []], Tree (b + 10) [Tree (b + 11) []]]]"

text \<open>The page after \<open>createScene\<close>: the grid is object 0, the materials are 0, 1 and 2.\<close>

definition showroom :: state where
  "showroom = state_of (createScene ''rendererCanvas'' page)"

text \<open>The showroom once the loader has delivered a model, and once the callback has run.\<close>

definition delivered :: state where
  "delivered = deliver [details_parameters] (car_objects 3) showroom"

definition ferrari :: tree where
  "ferrari = car_tree 1"

definition parked :: state where
  "parked = state_of (on_load (loads showroom ! 0) ferrari delivered)"

text \<open>The page after the component has been initialised once, and twice.\<close>

definition visited :: state where
  "visited = state_of (ngOnInit ''rendererCanvas'' 0 page)"

definition revisited :: state where
  "revisited = state_of (ngOnInit ''rendererCanvas'' 0 visited)"

text \<open>
  \<open>createScene\<close> twice, then the two models, one after the other: their objects are
  at the references from 2 and from 15 on.
\<close>

definition showroom2 :: state where
  "showroom2 = state_of (createScene ''rendererCanvas'' showroom)"

definition delivered2 :: state where
  "delivered2 = deliver [details_parameters] (car_objects 6) showroom2"

definition parked2 :: state where
  "parked2 = state_of (on_load (loads showroom2 ! 0) (car_tree 2) delivered2)"

definition delivered3 :: state where
  "delivered3 = deliver [details_parameters] (car_objects 8) parked2"

definition parked3 :: state where
  "parked3 = state_of (on_load (last (loads showroom2)) (car_tree 15) delivered3)"

text \<open>
  The same model but for the name of its front left wheel, which is not \<^verbatim>\<open>wheel_fl\<close>:
  the six meshes that get a material are all there.
\<close>

definition renamed_objects :: "mref \<Rightarrow> object3d list" where
  "renamed_objects m =
     [part m ''Scene'', part m ''ferrari'', part m ''body'', part m ''glass'',
      part m ''wheel_front_left'', part m ''rim_fl'', part m ''wheel_fr'', part m ''rim_fr'',
      part m ''wheel_rl'', part m ''rim_rl'', part m ''wheel_rr'', part m ''rim_rr'']"

text \<open>The showroom once that model has been delivered, and once the callback has run.\<close>

definition delivered_renamed :: state where
  "delivered_renamed = deliver [details_parameters] (renamed_objects 3) showroom"

definition stalled :: state where
  "stalled = state_of (on_load (loads showroom ! 0) ferrari delivered_renamed)"

text \<open>
  \<open>createScene\<close> again after the first model has arrived, then a second model, its
  objects at the references from 15 on: after the example model, and after the model
  with the other wheel name.
\<close>

definition reopened :: state where
  "reopened = state_of (createScene ''rendererCanvas'' parked)"

definition redelivered :: state where
  "redelivered = deliver [details_parameters] (car_objects 8) reopened"

definition reparked :: state where
  "reparked = state_of (on_load (last (loads reopened)) (car_tree 15) redelivered)"

definition reopened_stalled :: state where
  "reopened_stalled = state_of (createScene ''rendererCanvas'' stalled)"

definition redelivered_renamed :: state where
  "redelivered_renamed = deliver [details_parameters] (renamed_objects 8) reopened_stalled"

definition restalled :: state where
  "restalled =
     state_of (on_load (last (loads reopened_stalled)) (car_tree 15) redelivered_renamed)"

text \<open>The page without the glass colour input.\<close>

definition bare_page :: state where
  "bare_page = page\<lparr>element_ids := [''rendererCanvas'', ''body-color'', ''details-color'']\<rparr>"

section \<open>Outcomes\<close>

lemma state_of_and_then:
  "state_of (and_then x f) = (case x of Ok s \<Rightarrow> state_of (f s) | Throw e s \<Rightarrow> s)"
  by (cases x) simp_all

lemma and_then_Ok_iff:
  "and_then x f = Ok s' \<longleftrightarrow> (\<exists>s1. x = Ok s1 \<and> f s1 = Ok s')"
  by (cases x) simp_all

lemma returned_iff: "returned x \<longleftrightarrow> x = Ok (state_of x)"
  by (cases x) simp_all

section \<open>Looking objects up by name\<close>

lemma found_name:
  "getObjectByName objs nm t = Some r \<Longrightarrow> name (objs r) = nm"
  "firstByName objs nm ts = Some r \<Longrightarrow> name (objs r) = nm"
  by (induction objs nm t and objs nm ts rule: getObjectByName_firstByName.induct)
     (auto split: if_splits option.splits)

lemma found_ref:
  "getObjectByName objs nm t = Some r \<Longrightarrow> r \<in> set (refs t)"
  "firstByName objs nm ts = Some r \<Longrightarrow> r \<in> set (concat (map refs ts))"
  by (induction objs nm t and objs nm ts rule: getObjectByName_firstByName.induct)
     (auto split: if_splits option.splits)

lemma same_names:
  "\<forall>x. name (objs' x) = name (objs x) \<Longrightarrow>
     getObjectByName objs' nm t = getObjectByName objs nm t"
  "\<forall>x. name (objs' x) = name (objs x) \<Longrightarrow>
     firstByName objs' nm ts = firstByName objs nm ts"
  by (induction objs nm t and objs nm ts rule: getObjectByName_firstByName.induct)
     (auto split: if_splits option.splits)

lemma name_with_material: "name (with_material r m objs x) = name (objs x)"
  by (simp add: with_material_def)

lemma lookup_with_material:
  "getObjectByName (with_material r m objs) nm t = getObjectByName objs nm t"
  by (rule same_names) (simp add: name_with_material)

section \<open>The steps of the completion callback\<close>

lemma set_material_Ok:
  assumes "set_material car nm m s = Ok s1"
  shows "\<exists>r. getObjectByName (objects s) nm car = Some r \<and>
             s1 = s\<lparr>objects := with_material r m (objects s)\<rparr>"
  using assms by (auto simp: set_material_def split: option.splits)

lemma set_material_found:
  "getObjectByName (objects s) nm car = Some r \<Longrightarrow>
     set_material car nm m s = Ok (s\<lparr>objects := with_material r m (objects s)\<rparr>)"
  by (simp add: set_material_def)

lemma set_material_names:
  assumes "set_material car nm m s = Ok s1"
  shows "name (objects s1 x) = name (objects s x)"
  using set_material_Ok [OF assms] by (auto simp: name_with_material)

lemma set_material_rest:
  assumes "set_material car nm m s = Ok s1"
  shows "wheels s1 = wheels s" and "next_object s1 = next_object s"
  using set_material_Ok [OF assms] by auto

lemma set_material_assigns:
  assumes "set_material car nm m s = Ok s1"
      and "\<forall>x. name (objects s x) = name (objs x)"
  shows "assigned objs car nm m s1"
proof -
  from set_material_Ok [OF assms(1)] obtain r where
    r: "getObjectByName (objects s) nm car = Some r"
    and s1: "s1 = s\<lparr>objects := with_material r m (objects s)\<rparr>"
    by blast
  from assms(2) have "getObjectByName (objects s) nm car = getObjectByName objs nm car"
    by (rule same_names)
  with r have "getObjectByName objs nm car = Some r" by simp
  moreover from r have "name (objects s r) = nm" by (rule found_name)
  ultimately show ?thesis by (simp add: assigned_def s1 with_material_def)
qed

lemma set_material_keeps:
  assumes "set_material car nm' m' s = Ok s1"
      and "assigned objs car nm m s"
      and "nm' \<noteq> nm"
  shows "assigned objs car nm m s1"
proof -
  from set_material_Ok [OF assms(1)] obtain r' where
    r': "getObjectByName (objects s) nm' car = Some r'"
    and s1: "s1 = s\<lparr>objects := with_material r' m' (objects s)\<rparr>"
    by blast
  from assms(2) obtain r where
    r: "getObjectByName objs nm car = Some r" "name (objects s r) = nm"
       "material (objects s r) = Some m"
    by (auto simp: assigned_def split: option.splits)
  from r' have "name (objects s r') = nm'" by (rule found_name)
  with r(2) assms(3) have "r \<noteq> r'" by auto
  with r show ?thesis by (simp add: assigned_def s1 with_material_def)
qed

lemma push_wheels_keeps:
  "assigned objs car nm m (push_wheels car' s) = assigned objs car nm m s"
  by (simp add: assigned_def push_wheels_def split: option.splits)

lemma add_shadow_Ok:
  assumes "add_shadow sh car s = Ok s1"
  shows "\<exists>sc. scene s = Some sc \<and>
     s1 = s\<lparr>materials := (materials s)(next_material s := shadow_parameters sh),
            next_material := Suc (next_material s),
            objects := (objects s)(next_object s := shadow_mesh (next_material s)),
            next_object := Suc (next_object s),
            scene := Some (sc\<lparr>children := children sc @
                       [Tree (node car) (kids car @ [Tree (next_object s) []])]\<rparr>)\<rparr>"
  using assms
  by (auto simp: add_shadow_def Let_def new_object_def new_material_def scene_add_def
      split: option.splits)

lemma add_shadow_found:
  assumes "scene s = Some sc"
  shows "add_shadow sh car s =
     Ok (s\<lparr>materials := (materials s)(next_material s := shadow_parameters sh),
            next_material := Suc (next_material s),
            objects := (objects s)(next_object s := shadow_mesh (next_material s)),
            next_object := Suc (next_object s),
            scene := Some (sc\<lparr>children := children sc @
                       [Tree (node car) (kids car @ [Tree (next_object s) []])]\<rparr>)\<rparr>)"
  using assms
  by (simp add: add_shadow_def Let_def new_object_def new_material_def scene_add_def)

lemma add_shadow_keeps:
  assumes "add_shadow sh car s = Ok s1"
      and "assigned objs car nm m s"
      and "\<forall>r \<in> set (refs car). r < next_object s"
  shows "assigned objs car nm m s1"
proof -
  from assms(2) obtain r where
    r: "getObjectByName objs nm car = Some r" "name (objects s r) = nm"
       "material (objects s r) = Some m"
    by (auto simp: assigned_def split: option.splits)
  from r(1) have "r \<in> set (refs car)" by (rule found_ref)
  with assms(3) have "r \<noteq> next_object s" by auto
  with add_shadow_Ok [OF assms(1)] have "objects s1 r = objects s r" by auto
  with r show ?thesis by (simp add: assigned_def)
qed

lemma add_shadow_wheels: "add_shadow sh car s = Ok s1 \<Longrightarrow> wheels s1 = wheels s"
  using add_shadow_Ok [of sh car s s1] by auto

text \<open>What a successful run of the callback is made of.\<close>

lemma on_load_Ok:
  assumes "on_load c gltf s = Ok s'"
  obtains car others s1 s2 s3 s4 s5 s6 where
    "kids gltf = car # others"
    "set_material car ''body'' (bodyMaterial c) s = Ok s1"
    "set_material car ''rim_fl'' (detailsMaterial c) s1 = Ok s2"
    "set_material car ''rim_fr'' (detailsMaterial c) s2 = Ok s3"
    "set_material car ''rim_rl'' (detailsMaterial c) s3 = Ok s4"
    "set_material car ''rim_rr'' (detailsMaterial c) s4 = Ok s5"
    "set_material car ''glass'' (glassMaterial c) s5 = Ok s6"
    "add_shadow (shadow c) car (push_wheels car s6) = Ok s'"
  using assms by (auto simp: on_load_def and_then_Ok_iff split: list.splits)

lemma on_load_pushes:
  assumes "on_load c gltf s = Ok s'"
  shows "\<exists>w1 w2 w3 w4. wheels s' = wheels s @ [w1, w2, w3, w4]"
proof -
  from assms obtain car others s1 s2 s3 s4 s5 s6 where
    1: "set_material car ''body'' (bodyMaterial c) s = Ok s1"
    and 2: "set_material car ''rim_fl'' (detailsMaterial c) s1 = Ok s2"
    and 3: "set_material car ''rim_fr'' (detailsMaterial c) s2 = Ok s3"
    and 4: "set_material car ''rim_rl'' (detailsMaterial c) s3 = Ok s4"
    and 5: "set_material car ''rim_rr'' (detailsMaterial c) s4 = Ok s5"
    and 6: "set_material car ''glass'' (glassMaterial c) s5 = Ok s6"
    and 7: "add_shadow (shadow c) car (push_wheels car s6) = Ok s'"
    by (rule on_load_Ok)
  have "wheels s6 = wheels s"
    using set_material_rest(1) [OF 1] set_material_rest(1) [OF 2] set_material_rest(1) [OF 3]
      set_material_rest(1) [OF 4] set_material_rest(1) [OF 5] set_material_rest(1) [OF 6]
    by simp
  moreover have "wheels s' = wheels (push_wheels car s6)"
    using 7 by (rule add_shadow_wheels)
  ultimately show ?thesis by (simp add: push_wheels_def)
qed

text \<open>The callback returns when the six names are found and the scene exists.\<close>

lemma on_load_value:
  assumes "kids gltf = car # others"
      and "getObjectByName (objects s) ''body'' car = Some rb"
      and "getObjectByName (objects s) ''rim_fl'' car = Some rfl"
      and "getObjectByName (objects s) ''rim_fr'' car = Some rfr"
      and "getObjectByName (objects s) ''rim_rl'' car = Some rrl"
      and "getObjectByName (objects s) ''rim_rr'' car = Some rrr"
      and "getObjectByName (objects s) ''glass'' car = Some rg"
      and "scene s = Some sc"
  shows "on_load c gltf s =
     Ok (s\<lparr>objects :=
              (with_material rg (glassMaterial c)
                (with_material rrr (detailsMaterial c)
                  (with_material rrl (detailsMaterial c)
                    (with_material rfr (detailsMaterial c)
                      (with_material rfl (detailsMaterial c)
                        (with_material rb (bodyMaterial c) (objects s)))))))
              (next_object s := shadow_mesh (next_material s)),
            next_object := Suc (next_object s),
            materials := (materials s)(next_material s := shadow_parameters (shadow c)),
            next_material := Suc (next_material s),
            wheels := wheels s @
              [getObjectByName (objects s) ''wheel_fl'' car,
               getObjectByName (objects s) ''wheel_fr'' car,
               getObjectByName (objects s) ''wheel_rl'' car,
               getObjectByName (objects s) ''wheel_rr'' car],
            scene := Some (sc\<lparr>children := children sc @
                       [Tree (node car) (kids car @ [Tree (next_object s) []])]\<rparr>)\<rparr>)"
  using assms
  by (simp add: on_load_def set_material_def lookup_with_material push_wheels_def
      add_shadow_found)

text \<open>What the loader and a successful run of the callback leave as it was, and what they add.\<close>

lemma deliver_fields:
  "wheels (deliver ms obs s) = wheels s"
  "scene (deliver ms obs s) = scene s"
  "element_ids (deliver ms obs s) = element_ids s"
  "next_object (deliver ms obs s) = next_object s + length obs"
  "next_material (deliver ms obs s) = next_material s + length ms"
proof -
  have m: "wheels (fold new_material ms s) = wheels s \<and>
           scene (fold new_material ms s) = scene s \<and>
           element_ids (fold new_material ms s) = element_ids s \<and>
           next_object (fold new_material ms s) = next_object s \<and>
           next_material (fold new_material ms s) = next_material s + length ms" for s
    by (induction ms arbitrary: s) (simp_all add: new_material_def)
  have ob: "wheels (fold new_object obs s) = wheels s \<and>
           scene (fold new_object obs s) = scene s \<and>
           element_ids (fold new_object obs s) = element_ids s \<and>
           next_object (fold new_object obs s) = next_object s + length obs \<and>
           next_material (fold new_object obs s) = next_material s" for s
    by (induction obs arbitrary: s) (simp_all add: new_object_def)
  show "wheels (deliver ms obs s) = wheels s"
    "scene (deliver ms obs s) = scene s"
    "element_ids (deliver ms obs s) = element_ids s"
    "next_object (deliver ms obs s) = next_object s + length obs"
    "next_material (deliver ms obs s) = next_material s + length ms"
    by (simp_all add: deliver_def m ob)
qed

lemma on_load_wheels:
  assumes "on_load c gltf s = Ok s'"
  shows "\<exists>carModel others. kids gltf = carModel # others \<and>
           wheels s' = wheels s @ wheel_lookups (objects s) carModel"
proof -
  from assms obtain car others s1 s2 s3 s4 s5 s6 where
    k: "kids gltf = car # others"
    and 1: "set_material car ''body'' (bodyMaterial c) s = Ok s1"
    and 2: "set_material car ''rim_fl'' (detailsMaterial c) s1 = Ok s2"
    and 3: "set_material car ''rim_fr'' (detailsMaterial c) s2 = Ok s3"
    and 4: "set_material car ''rim_rl'' (detailsMaterial c) s3 = Ok s4"
    and 5: "set_material car ''rim_rr'' (detailsMaterial c) s4 = Ok s5"
    and 6: "set_material car ''glass'' (glassMaterial c) s5 = Ok s6"
    and 7: "add_shadow (shadow c) car (push_wheels car s6) = Ok s'"
    by (rule on_load_Ok)
  have "\<forall>x. name (objects s6 x) = name (objects s x)"
    using set_material_names [OF 1] set_material_names [OF 2] set_material_names [OF 3]
      set_material_names [OF 4] set_material_names [OF 5] set_material_names [OF 6]
    by simp
  then have look: "getObjectByName (objects s6) nm car = getObjectByName (objects s) nm car" for nm
    by (rule same_names)
  have "wheels s6 = wheels s"
    using set_material_rest(1) [OF 1] set_material_rest(1) [OF 2] set_material_rest(1) [OF 3]
      set_material_rest(1) [OF 4] set_material_rest(1) [OF 5] set_material_rest(1) [OF 6]
    by simp
  moreover have "wheels s' = wheels (push_wheels car s6)"
    using 7 by (rule add_shadow_wheels)
  ultimately have "wheels s' = wheels s @ wheel_lookups (objects s) car"
    by (simp add: push_wheels_def wheel_lookups_def look)
  with k show ?thesis by blast
qed

lemma on_load_fields:
  assumes "on_load c gltf s = Ok s'"
  shows "element_ids s' = element_ids s" and "next_object s' = Suc (next_object s)"
    and "next_material s' = Suc (next_material s)" and "scene s' \<noteq> None"
    and "r \<noteq> next_object s \<Longrightarrow> rotation_x (objects s' r) = rotation_x (objects s r)"
proof -
  from assms obtain car others s1 s2 s3 s4 s5 s6 where
    1: "set_material car ''body'' (bodyMaterial c) s = Ok s1"
    and 2: "set_material car ''rim_fl'' (detailsMaterial c) s1 = Ok s2"
    and 3: "set_material car ''rim_fr'' (detailsMaterial c) s2 = Ok s3"
    and 4: "set_material car ''rim_rl'' (detailsMaterial c) s3 = Ok s4"
    and 5: "set_material car ''rim_rr'' (detailsMaterial c) s4 = Ok s5"
    and 6: "set_material car ''glass'' (glassMaterial c) s5 = Ok s6"
    and 7: "add_shadow (shadow c) car (push_wheels car s6) = Ok s'"
    by (rule on_load_Ok)
  have keep: "element_ids b = element_ids a \<and> next_object b = next_object a \<and>
      next_material b = next_material a \<and>
      (\<forall>r. rotation_x (objects b r) = rotation_x (objects a r))"
    if "set_material car nm m a = Ok b" for nm m a b
    using set_material_Ok [OF that] by (auto simp: with_material_def)
  from keep [OF 1] keep [OF 2] keep [OF 3] keep [OF 4] keep [OF 5] keep [OF 6]
  have 6: "element_ids s6 = element_ids s" "next_object s6 = next_object s"
    "next_material s6 = next_material s"
    "\<forall>r. rotation_x (objects s6 r) = rotation_x (objects s r)"
    by simp_all
  from add_shadow_Ok [OF 7] 6
  show "element_ids s' = element_ids s" and "next_object s' = Suc (next_object s)"
    and "next_material s' = Suc (next_material s)" and "scene s' \<noteq> None"
    and "r \<noteq> next_object s \<Longrightarrow> rotation_x (objects s' r) = rotation_x (objects s r)"
    by (auto simp: push_wheels_def)
qed

lemma length_wheel_lookups: "length (wheel_lookups objs car) = 4"
  by (simp add: wheel_lookups_def)

section \<open>createScene\<close>

lemmas createScene_defs =
  createScene_def Let_def new_material_def bind_color_inputs_def getElementById_def
  addEventListener_def create_renderer_def create_camera_def create_grid_scene_def
  new_object_def scene_add_def request_model_def

lemma createScene_value:
  assumes "''body-color'' \<in> set (element_ids s)"
      and "''details-color'' \<in> set (element_ids s)"
      and "''glass-color'' \<in> set (element_ids s)"
  shows "createScene cv s =
     Ok (s\<lparr>materials := (materials s)
              (next_material s := body_parameters,
               Suc (next_material s) := details_parameters,
               Suc (Suc (next_material s)) := glass_parameters),
            next_material := Suc (Suc (Suc (next_material s))),
            listeners := listeners s @
              [(Element ''body-color'', ''change'', SetColor (next_material s)),
               (Element ''details-color'', ''input'', SetColor (Suc (next_material s))),
               (Element ''glass-color'', ''input'', SetColor (Suc (Suc (next_material s))))],
            canvas := Some cv,
            renderer := Some
              \<lparr>render_canvas = cv, alpha = True, antialias = True,
               pixelRatio = devicePixelRatio s,
               output_size = (innerWidth s, innerHeight s),
               outputEncoding = ''sRGBEncoding'',
               toneMapping = ''ACESFilmicToneMapping'',
               toneMappingExposure = 0.85\<rparr>,
            camera := Some
              \<lparr>fov = 40, aspect = js_div (innerWidth s) (innerHeight s), near = 0.1,
               far = 100, position = (4.25, 1.4, - 4.5),
               projectionMatrix = (40, js_div (innerWidth s) (innerHeight s), 0.1, 100)\<rparr>,
            controls := Some \<lparr>target = (0, 0.5, 0)\<rparr>,
            scene := Some
              \<lparr>background = Some 15658734, environment = Some ''RoomEnvironment'',
               fog = Some (15658734, 10, 50), children = [Tree (next_object s) []]\<rparr>,
            objects := (objects s)
              (next_object s :=
                 \<lparr>name = [], material = None, rotation_x = 0, position_z = 0,
                  renderOrder = 0\<rparr>),
            next_object := Suc (next_object s),
            grid := Some (next_object s),
            loads := loads s @
              [\<lparr>bodyMaterial = next_material s, detailsMaterial = Suc (next_material s),
                glassMaterial = Suc (Suc (next_material s)),
                shadow = ''assets/gltf/ferrari_ao.png''\<rparr>]\<rparr>)"
  using assms by (simp add: createScene_defs updateProjectionMatrix_def)

lemma createScene_Ok_inputs:
  assumes "createScene cv s = Ok s'"
  shows "''body-color'' \<in> set (element_ids s) \<and> ''details-color'' \<in> set (element_ids s) \<and>
         ''glass-color'' \<in> set (element_ids s)"
  using assms
  by (auto simp: createScene_def Let_def bind_color_inputs_def getElementById_def
      new_material_def addEventListener_def split: if_splits)

lemma createScene_wheels: "wheels (state_of (createScene cv s)) = wheels s"
  by (auto simp: createScene_defs state_of_and_then split: option.splits if_splits outcome.splits)

section \<open>render and resize\<close>

lemma rotate_wheels_all:
  "None \<notin> set ws \<Longrightarrow>
   rotate_wheels v ws s =
     Ok (s\<lparr>objects :=
            (\<lambda>r. if Some r \<in> set ws then (objects s r)\<lparr>rotation_x := v\<rparr> else objects s r)\<rparr>)"
proof (induction ws arbitrary: s)
  case Nil
  then show ?case by simp
next
  case (Cons w ws)
  then obtain r where w: "w = Some r" by (cases w) auto
  from Cons.prems have "None \<notin> set ws" by simp
  note IH = Cons.IH [OF this]
  show ?case
    unfolding w by (simp add: IH fun_eq_iff)
qed

lemma rotate_wheels_undefined:
  "None \<in> set ws \<Longrightarrow> \<exists>s'. rotate_wheels v ws s = Throw TypeError s'"
proof (induction ws arbitrary: s)
  case Nil
  then show ?case by simp
next
  case (Cons w ws)
  then show ?case by (cases w) auto
qed

lemma objects_draw_scene: "objects (state_of (draw_scene s)) = objects s"
  by (simp add: draw_scene_def split: option.splits)

lemma objects_schedule_frame:
  "objects (state_of (and_then (schedule_frame s) draw_scene)) = objects s"
  by (simp add: schedule_frame_def requestAnimationFrame_def objects_draw_scene)

lemma rotation_scroll_grid:
  "rotation_x (objects (state_of (and_then (scroll_grid t s)
       (\<lambda>s. and_then (schedule_frame s) draw_scene))) r) = rotation_x (objects s r)"
  by (simp add: scroll_grid_def objects_schedule_frame split: option.splits)

lemma render_Ok:
  assumes "wheels s = []" and "grid s = Some g" and "renderer s = Some r"
      and "scene s = Some sc" and "camera s = Some c"
  shows "render now s =
     Ok (s\<lparr>objects := (objects s)(g := (objects s g)\<lparr>position_z := js_rem (now / 1000) 5\<rparr>),
            frame_requests := frame_requests s @ [next_request s],
            next_request := Suc (next_request s),
            frameId := Some (next_request s),
            draws := draws s @ [\<lparr>drawn_scene = sc, drawn_camera = c\<rparr>]\<rparr>)"
  using assms
  by (simp add: render_def Let_def scroll_grid_def schedule_frame_def
      requestAnimationFrame_def draw_scene_def)

lemma renders_Ok:
  assumes "wheels s = []" and "grid s = Some g" and "renderer s = Some r"
      and "scene s = Some sc" and "camera s = Some c"
  shows "\<exists>s'. renders ts s = Ok s' \<and>
     draws s' = draws s @ replicate (length ts) \<lparr>drawn_scene = sc, drawn_camera = c\<rparr>"
  using assms
proof (induction ts arbitrary: s)
  case Nil
  then show ?case by simp
next
  case (Cons now ts)
  let ?s1 = "s\<lparr>objects := (objects s)(g := (objects s g)\<lparr>position_z := js_rem (now / 1000) 5\<rparr>),
     frame_requests := frame_requests s @ [next_request s],
     next_request := Suc (next_request s),
     frameId := Some (next_request s),
     draws := draws s @ [\<lparr>drawn_scene = sc, drawn_camera = c\<rparr>]\<rparr>"
  have r: "render now s = Ok ?s1" using Cons.prems by (rule render_Ok)
  have "\<exists>s'. renders ts ?s1 = Ok s' \<and>
     draws s' = draws ?s1 @ replicate (length ts) \<lparr>drawn_scene = sc, drawn_camera = c\<rparr>"
    by (rule Cons.IH) (simp_all add: Cons.prems)
  then show ?case by (auto simp: r replicate_app_Cons_same)
qed

section \<open>What leaves the schedule of frames alone\<close>

lemma schedule_set_material: "schedule (state_of (set_material car nm m s)) = schedule s"
  by (simp add: set_material_def schedule_def split: option.splits)

lemma schedule_add_shadow: "schedule (state_of (add_shadow sh car s)) = schedule s"
  by (simp add: add_shadow_def Let_def new_material_def new_object_def scene_add_def
      schedule_def split: option.splits)

lemma schedule_push_wheels: "schedule (push_wheels car s) = schedule s"
  by (simp add: push_wheels_def schedule_def)

lemma schedule_on_load: "schedule (state_of (on_load c gltf s)) = schedule s"
proof (cases "kids gltf")
  case Nil
  then show ?thesis by (simp add: on_load_def)
next
  case (Cons car others)
  have step: "schedule (state_of (and_then (set_material car nm m s1) f)) = schedule s1"
    if "\<And>s2. schedule (state_of (f s2)) = schedule s2" for nm m s1 f
    using that schedule_set_material [of car nm m s1]
    by (cases "set_material car nm m s1") simp_all
  show ?thesis
    unfolding on_load_def Cons list.case
    by (intro step) (simp add: schedule_add_shadow schedule_push_wheels)
qed

lemma schedule_resize: "schedule (state_of (resize s)) = schedule s"
  by (simp add: resize_def Let_def schedule_def split: option.splits)

lemma schedule_deliver: "schedule (deliver ms obs s) = schedule s"
proof -
  have m: "schedule (fold new_material ms s) = schedule s" for s
    by (induction ms arbitrary: s) (simp_all add: new_material_def schedule_def)
  have ob: "schedule (fold new_object obs s) = schedule s" for s
    by (induction obs arbitrary: s) (simp_all add: new_object_def schedule_def)
  show ?thesis by (simp add: deliver_def m ob)
qed

lemma unarmed_schedule: "schedule s' = schedule s \<Longrightarrow> unarmed s' = unarmed s"
  by (simp add: unarmed_def schedule_def)

lemma quiet_schedule: "schedule s' = schedule s \<Longrightarrow> quiet s' = quiet s"
  by (simp add: quiet_def unarmed_def schedule_def)

text \<open>An event that no listener calling \<open>render\<close> is registered for.\<close>

lemma dispatch_schedule:
  assumes "\<forall>l \<in> set ls.
             snd (snd l) = CallRender \<longrightarrow> (fst l, fst (snd l)) \<noteq> (event_target e, event_type e)"
  shows "schedule (dispatch ls e now s) = schedule s"
  using assms
proof (induction ls arbitrary: s)
  case Nil
  then show ?case by simp
next
  case (Cons l ls)
  obtain t ty h where l: "l = (t, ty, h)" by (cases l)
  have one: "schedule (if t = event_target e \<and> ty = event_type e
                       then state_of (run_handler h e now s) else s) = schedule s"
  proof (cases h)
    case (SetColor m)
    then show ?thesis by (simp add: schedule_def)
  next
    case CallRender
    from Cons.prems have
      "snd (snd l) = CallRender \<longrightarrow> (fst l, fst (snd l)) \<noteq> (event_target e, event_type e)"
      by simp
    with CallRender l have "\<not> (t = event_target e \<and> ty = event_type e)"
      by simp
    then show ?thesis by auto
  next
    case CallResize
    then show ?thesis by (simp add: schedule_resize)
  qed
  from Cons.prems have "\<forall>l \<in> set ls.
      snd (snd l) = CallRender \<longrightarrow> (fst l, fst (snd l)) \<noteq> (event_target e, event_type e)"
    by simp
  from Cons.IH [OF this] one show ?case by (simp add: l)
qed

lemma unarmed_other_event:
  assumes "unarmed s" and "(event_target e, event_type e) \<noteq> (Window, ''DOMContentLoaded'')"
  shows "\<forall>l \<in> set (listeners s).
           snd (snd l) = CallRender \<longrightarrow> (fst l, fst (snd l)) \<noteq> (event_target e, event_type e)"
proof (intro ballI impI)
  fix l
  assume "l \<in> set (listeners s)" and "snd (snd l) = CallRender"
  with assms(1) have "l = (Window, ''DOMContentLoaded'', CallRender)"
    unfolding unarmed_def by blast
  then have "(fst l, fst (snd l)) = (Window, ''DOMContentLoaded'')"
    by (simp only: fst_conv snd_conv)
  with assms(2) show "(fst l, fst (snd l)) \<noteq> (event_target e, event_type e)"
    by metis
qed

lemma unarmed_first_load:
  assumes "unarmed s" and "\<not> contentLoaded s"
  shows "\<forall>l \<in> set (listeners s).
           snd (snd l) = CallRender \<longrightarrow> (fst l, fst (snd l)) \<noteq> (event_target e, event_type e)"
  using assms unfolding unarmed_def by blast

text \<open>
  The events other than a frame: with no listener armed, they leave the schedule as it
  is, but for the mark that \<^verbatim>\<open>DOMContentLoaded\<close> has been dispatched.
\<close>

lemma step_unarmed:
  assumes "unarmed s" and "\<forall>i now. e \<noteq> AnimationFrame i now"
  shows "schedule (step e s) = schedule s \<or>
         schedule (step e s) = schedule (s\<lparr>contentLoaded := True\<rparr>)"
proof (cases e)
  case (AnimationFrame i now)
  with assms(2) show ?thesis by simp
next
  case (ReadyStateChange rs)
  then show ?thesis by (simp add: schedule_def)
next
  case (DOMContentLoaded now)
  show ?thesis
  proof (cases "contentLoaded s")
    case True
    then show ?thesis by (simp add: DOMContentLoaded)
  next
    case False
    let ?s = "s\<lparr>contentLoaded := True,
                readyState := (if readyState s = Loading then Interactive else readyState s)\<rparr>"
    let ?e = "\<lparr>event_target = Window, event_type = ''DOMContentLoaded'', event_value = 0\<rparr>"
    have "schedule (dispatch (listeners s) ?e now ?s) = schedule ?s"
      using unarmed_first_load [OF assms(1) False] by (rule dispatch_schedule)
    moreover have "schedule ?s = schedule (s\<lparr>contentLoaded := True\<rparr>)"
      by (simp add: schedule_def)
    ultimately show ?thesis using False by (simp add: DOMContentLoaded dispatchEvent_def)
  qed
next
  case (WindowResized w h)
  let ?s = "s\<lparr>innerWidth := w, innerHeight := h\<rparr>"
  let ?e = "\<lparr>event_target = Window, event_type = ''resize'', event_value = 0\<rparr>"
  have "(event_target ?e, event_type ?e) \<noteq> (Window, ''DOMContentLoaded'')" by simp
  with assms(1) have "schedule (dispatch (listeners s) ?e 0 ?s) = schedule ?s"
    by (intro dispatch_schedule unarmed_other_event)
  moreover have "schedule ?s = schedule s" by (simp add: schedule_def)
  ultimately show ?thesis by (simp add: WindowResized dispatchEvent_def)
next
  case (ColorInput i ty v)
  let ?e = "\<lparr>event_target = Element i, event_type = ty, event_value = v\<rparr>"
  have "(event_target ?e, event_type ?e) \<noteq> (Window, ''DOMContentLoaded'')" by simp
  with assms(1) have "schedule (dispatch (listeners s) ?e 0 s) = schedule s"
    by (intro dispatch_schedule unarmed_other_event)
  then show ?thesis by (simp add: ColorInput dispatchEvent_def)
next
  case (ModelLoaded k ms obs gltf)
  let ?s = "s\<lparr>loads := take k (loads s) @ drop (Suc k) (loads s)\<rparr>"
  have "schedule (state_of (on_load (loads s ! k) gltf (deliver ms obs ?s))) = schedule ?s"
    by (simp only: schedule_on_load schedule_deliver)
  moreover have "schedule ?s = schedule s" by (simp add: schedule_def)
  ultimately show ?thesis by (simp add: ModelLoaded)
qed

lemma step_quiet:
  assumes "quiet s"
  shows "quiet (step e s) \<and> next_request (step e s) = next_request s \<and>
         draws (step e s) = draws s"
proof (cases "\<exists>i now. e = AnimationFrame i now")
  case True
  with assms show ?thesis by (auto simp: quiet_def)
next
  case False
  from assms have u: "unarmed s" by (simp add: quiet_def)
  from False have "\<forall>i now. e \<noteq> AnimationFrame i now" by simp
  from step_unarmed [OF u this] assms show ?thesis
    by (auto simp: quiet_def unarmed_def schedule_def)
qed

lemma run_Cons: "run (e # es) s = run es (step e s)"
  by (simp add: run_def)

lemma run_quiet:
  assumes "quiet s"
  shows "quiet (run es s) \<and> next_request (run es s) = next_request s \<and>
         draws (run es s) = draws s"
  using assms
proof (induction es arbitrary: s)
  case Nil
  then show ?case by (simp add: run_def)
next
  case (Cons e es)
  from step_quiet [OF Cons.prems, of e] have
    q: "quiet (step e s)" and n: "next_request (step e s) = next_request s"
    and d: "draws (step e s) = draws s"
    by simp_all
  from Cons.IH [OF q] n d show ?case by (simp only: run_Cons)
qed

lemma ngOnDestroy_quiet:
  assumes "single_loop s"
  shows "quiet (state_of (ngOnDestroy s))"
proof (cases "frameId s")
  case None
  with assms show ?thesis
    by (simp add: single_loop_def quiet_def unarmed_def ngOnDestroy_def)
next
  case (Some i)
  with assms have "set (frame_requests s) \<subseteq> {i}" by (simp add: single_loop_def)
  then have "removeAll i (frame_requests s) = []"
    by (auto simp: removeAll_filter_not_eq filter_empty_conv)
  with assms Some show ?thesis
    by (simp add: single_loop_def quiet_def unarmed_def ngOnDestroy_def
        cancelAnimationFrame_def)
qed

section \<open>The component\<close>

lemma ngOnInit_value:
  assumes "''body-color'' \<in> set (element_ids s)"
      and "''details-color'' \<in> set (element_ids s)"
      and "''glass-color'' \<in> set (element_ids s)"
      and "readyState s \<noteq> Loading" and "wheels s = []"
  shows "returned (ngOnInit cv now s)"
    and "frame_requests (state_of (ngOnInit cv now s)) = frame_requests s @ [next_request s]"
    and "next_request (state_of (ngOnInit cv now s)) = Suc (next_request s)"
    and "frameId (state_of (ngOnInit cv now s)) = Some (next_request s)"
    and "length (draws (state_of (ngOnInit cv now s))) = Suc (length (draws s))"
    and "readyState (state_of (ngOnInit cv now s)) = readyState s"
    and "element_ids (state_of (ngOnInit cv now s)) = element_ids s"
    and "wheels (state_of (ngOnInit cv now s)) = []"
    and "grid (state_of (ngOnInit cv now s)) = Some (next_object s)"
    and "renderer (state_of (ngOnInit cv now s)) \<noteq> None"
    and "scene (state_of (ngOnInit cv now s)) \<noteq> None"
    and "camera (state_of (ngOnInit cv now s)) \<noteq> None"
    and "listeners (state_of (ngOnInit cv now s)) = listeners s @
              [(Element ''body-color'', ''change'', SetColor (next_material s)),
               (Element ''details-color'', ''input'', SetColor (Suc (next_material s))),
               (Element ''glass-color'', ''input'', SetColor (Suc (Suc (next_material s)))),
               (Window, ''resize'', CallResize)]"
  using assms
  by (simp_all add: ngOnInit_def createScene_value animate_def render_Ok addEventListener_def)

section \<open>One render loop\<close>

lemma single_loop_schedule: "schedule s' = schedule s \<Longrightarrow> single_loop s' = single_loop s"
  by (simp add: single_loop_def unarmed_def schedule_def)

lemma schedule_rotate_wheels: "schedule (state_of (rotate_wheels v ws s)) = schedule s"
proof (induction ws arbitrary: s)
  case Nil
  then show ?case by simp
next
  case (Cons w ws)
  show ?case
  proof (cases w)
    case None
    then show ?thesis by simp
  next
    case (Some r)
    have "schedule (state_of (rotate_wheels v ws
            (s\<lparr>objects := (objects s)(r := (objects s r)\<lparr>rotation_x := v\<rparr>)\<rparr>))) =
          schedule (s\<lparr>objects := (objects s)(r := (objects s r)\<lparr>rotation_x := v\<rparr>)\<rparr>)"
      by (rule Cons.IH)
    then show ?thesis by (simp add: Some schedule_def)
  qed
qed

text \<open>A call of \<open>render\<close> when no frame is pending leaves one loop, or none if it throws early.\<close>

lemma render_starts_one_loop:
  assumes "frame_requests s = []" and "unarmed s"
  shows "single_loop (state_of (render now s))"
proof -
  let ?v = "- now / 1000 * pi"
  have s0: "single_loop s" using assms by (simp add: single_loop_def)
  show ?thesis
  proof (cases "rotate_wheels ?v (wheels s) s")
    case (Throw e s1)
    with schedule_rotate_wheels [of ?v "wheels s" s] have "schedule s1 = schedule s" by simp
    with s0 have "single_loop s1" using single_loop_schedule [of s1 s] by simp
    with Throw show ?thesis by (simp add: render_def Let_def)
  next
    case (Ok s1)
    with schedule_rotate_wheels [of ?v "wheels s" s] have 1: "schedule s1 = schedule s" by simp
    show ?thesis
    proof (cases "grid s1")
      case None
      with Ok 1 s0 show ?thesis
        using single_loop_schedule [of s1 s]
        by (simp add: render_def Let_def scroll_grid_def)
    next
      case (Some g)
      let ?s2 = "s1\<lparr>objects := (objects s1)(g := (objects s1 g)\<lparr>position_z := js_rem (- (- now / 1000)) 5\<rparr>)\<rparr>"
      have "schedule ?s2 = schedule s" using 1 by (simp add: schedule_def)
      then have 2: "frame_requests ?s2 = []" "unarmed ?s2"
        using assms unarmed_schedule [of ?s2 s] by (simp_all add: schedule_def)
      have "single_loop (state_of (and_then (schedule_frame ?s2) draw_scene))"
        using 2
        by (simp add: schedule_frame_def requestAnimationFrame_def draw_scene_def
            single_loop_def unarmed_def split: option.splits)
      with Ok Some show ?thesis by (simp add: render_def Let_def scroll_grid_def)
    qed
  qed
qed

text \<open>One loop stays one loop, whatever the browser does.\<close>

lemma single_loop_step:
  assumes "single_loop s"
  shows "single_loop (step e s)"
proof (cases "\<exists>i now. e = AnimationFrame i now")
  case True
  then obtain i now where e: "e = AnimationFrame i now" by blast
  show ?thesis
  proof (cases "i \<in> set (frame_requests s)")
    case False
    with assms show ?thesis by (simp add: e)
  next
    case True
    with assms have "set (frame_requests s) \<subseteq> {i}"
      by (cases "frameId s") (auto simp: single_loop_def)
    then have "removeAll i (frame_requests s) = []"
      by (auto simp: removeAll_filter_not_eq filter_empty_conv)
    then have "single_loop (state_of (render now (s\<lparr>frame_requests := removeAll i (frame_requests s)\<rparr>)))"
      using assms by (intro render_starts_one_loop) (simp_all add: single_loop_def unarmed_def)
    with True show ?thesis by (simp add: e)
  qed
next
  case False
  from assms have u: "unarmed s" by (simp add: single_loop_def)
  from False have "\<forall>i now. e \<noteq> AnimationFrame i now" by simp
  from step_unarmed [OF u this] assms show ?thesis
    by (auto simp: single_loop_def unarmed_def schedule_def)
qed

lemma single_loop_run: "single_loop s \<Longrightarrow> single_loop (run es s)"
proof (induction es arbitrary: s)
  case Nil
  then show ?case by (simp add: run_def)
next
  case (Cons e es)
  from Cons.prems have "single_loop (step e s)" by (rule single_loop_step)
  then have "single_loop (run es (step e s))" by (rule Cons.IH)
  then show ?case by (simp only: run_Cons)
qed

lemma ngOnInit_single_loop:
  assumes "''body-color'' \<in> set (element_ids s)"
      and "''details-color'' \<in> set (element_ids s)"
      and "''glass-color'' \<in> set (element_ids s)"
      and "readyState s \<noteq> Loading" and "wheels s = []"
      and "frame_requests s = []" and "listeners s = []"
  shows "single_loop (state_of (ngOnInit cv now s))"
  using ngOnInit_value [OF assms(1-5), of cv now] assms(6,7)
  by (simp add: single_loop_def unarmed_def)

text \<open>
  A page on which the component is initialised once: whatever the browser does before
  and after the teardown, the teardown ends the frames and the draw calls.
\<close>

lemma destroy_after_one_init:
  assumes "''body-color'' \<in> set (element_ids s)"
      and "''details-color'' \<in> set (element_ids s)"
      and "''glass-color'' \<in> set (element_ids s)"
      and "readyState s \<noteq> Loading" and "wheels s = []"
      and "frame_requests s = []" and "listeners s = []"
  shows "frame_requests
           (run es' (state_of (ngOnDestroy (run es (state_of (ngOnInit cv now s)))))) = [] \<and>
         draws (run es' (state_of (ngOnDestroy (run es (state_of (ngOnInit cv now s)))))) =
           draws (run es (state_of (ngOnInit cv now s)))"
proof -
  let ?s1 = "run es (state_of (ngOnInit cv now s))"
  have "single_loop (state_of (ngOnInit cv now s))"
    using assms by (rule ngOnInit_single_loop)
  then have "single_loop ?s1" by (rule single_loop_run)
  then have "quiet (state_of (ngOnDestroy ?s1))" by (rule ngOnDestroy_quiet)
  from run_quiet [OF this, of es']
  have "quiet (run es' (state_of (ngOnDestroy ?s1)))"
    and "draws (run es' (state_of (ngOnDestroy ?s1))) = draws (state_of (ngOnDestroy ?s1))"
    by simp_all
  moreover have "draws (state_of (ngOnDestroy ?s1)) = draws ?s1"
    by (simp add: ngOnDestroy_def cancelAnimationFrame_def split: option.splits)
  ultimately show ?thesis by (simp add: quiet_def)
qed

section \<open>The example inputs, evaluated\<close>

lemma page_inputs:
  "''body-color'' \<in> set (element_ids page)"
  "''details-color'' \<in> set (element_ids page)"
  "''glass-color'' \<in> set (element_ids page)"
  by (simp_all add: page_def EngineService_def)

lemma page_fields:
  "wheels page = []" "frameId page = None" "listeners page = []" "readyState page = Complete"
  "next_object page = 0" "next_material page = 0" "frame_requests page = []"
  "next_request page = 1" "draws page = []" "loads page = []"
  "innerWidth page = 1280" "innerHeight page = 720" "scene page = None"
  "renderer page = None" "camera page = None" "controls page = None" "canvas page = None"
  "grid page = None"
  by (simp_all add: page_def EngineService_def)

lemma showroom_returned: "createScene ''rendererCanvas'' page = Ok showroom"
  by (simp add: showroom_def createScene_value [OF page_inputs])

lemma showroom_fields:
  "wheels showroom = []" "grid showroom = Some 0" "next_object showroom = 1"
  "next_material showroom = 3" "draws showroom = []" "frame_requests showroom = []"
  "innerWidth showroom = 1280" "innerHeight showroom = 720"
  "camera showroom \<noteq> None" "renderer showroom \<noteq> None"
  "loads showroom = [\<lparr>bodyMaterial = 0, detailsMaterial = 1, glassMaterial = 2,
                shadow = ''assets/gltf/ferrari_ao.png''\<rparr>]"
  "scene showroom = Some
              \<lparr>background = Some 15658734, environment = Some ''RoomEnvironment'',
               fog = Some (15658734, 10, 50), children = [Tree 0 []]\<rparr>"
  "element_ids showroom = element_ids page"
  by (simp_all add: showroom_def createScene_value [OF page_inputs] page_fields
      numeral_2_eq_2 numeral_3_eq_3)

lemma visited_fields:
  "returned (ngOnInit ''rendererCanvas'' 0 page)"
  "frame_requests visited = [1]" "next_request visited = 2" "frameId visited = Some 1"
  "length (draws visited) = 1" "readyState visited = Complete"
  "element_ids visited = element_ids page" "wheels visited = []"
  "listeners visited =
     [(Element ''body-color'', ''change'', SetColor 0),
      (Element ''details-color'', ''input'', SetColor 1),
      (Element ''glass-color'', ''input'', SetColor 2),
      (Window, ''resize'', CallResize)]"
  using ngOnInit_value [OF page_inputs, of "''rendererCanvas''" 0]
  by (simp_all add: visited_def page_fields numeral_2_eq_2)

lemma visited_inputs:
  "''body-color'' \<in> set (element_ids visited)"
  "''details-color'' \<in> set (element_ids visited)"
  "''glass-color'' \<in> set (element_ids visited)"
  by (simp_all add: visited_fields page_inputs)

lemma revisited_fields:
  "returned (ngOnInit ''rendererCanvas'' 0 visited)"
  "frame_requests revisited = [1, 2]" "next_request revisited = 3" "frameId revisited = Some 2"
  "length (draws revisited) = 2" "wheels revisited = []"
  "grid revisited \<noteq> None" "renderer revisited \<noteq> None" "scene revisited \<noteq> None"
  "camera revisited \<noteq> None"
  using ngOnInit_value [OF visited_inputs, of "''rendererCanvas''" 0]
  by (simp_all add: revisited_def visited_fields numeral_3_eq_3)

lemma delivered_fields:
  "wheels delivered = []" "next_object delivered = 13" "next_material delivered = 4"
  "scene delivered = scene showroom"
  by (simp_all add: delivered_def deliver_def car_objects_def new_object_def new_material_def
      showroom_fields)

lemma delivered_objects:
  "map (objects delivered) [1, 2, 3, 4, 5, 6, 7, 8, 9, 10, 11, 12] = car_objects 3"
  by (simp add: delivered_def deliver_def car_objects_def new_object_def new_material_def
      showroom_fields)

lemma car_tree_1:
  "ferrari =
     Tree 1 [Tree 2 [Tree 3 [], Tree 4 [], Tree 5 [Tree 6 []], Tree 7 [Tree 8 []],
                     Tree 9 [Tree 10 []], Tree 11 [Tree 12 []]]]"
  by (simp add: ferrari_def car_tree_def)

lemma delivered_lookups:
  "getObjectByName (objects delivered) ''body'' (hd (kids ferrari)) = Some 3"
  "getObjectByName (objects delivered) ''rim_fl'' (hd (kids ferrari)) = Some 6"
  "getObjectByName (objects delivered) ''rim_fr'' (hd (kids ferrari)) = Some 8"
  "getObjectByName (objects delivered) ''rim_rl'' (hd (kids ferrari)) = Some 10"
  "getObjectByName (objects delivered) ''rim_rr'' (hd (kids ferrari)) = Some 12"
  "getObjectByName (objects delivered) ''glass'' (hd (kids ferrari)) = Some 4"
  "getObjectByName (objects delivered) ''wheel_fl'' (hd (kids ferrari)) = Some 5"
  "getObjectByName (objects delivered) ''wheel_fr'' (hd (kids ferrari)) = Some 7"
  "getObjectByName (objects delivered) ''wheel_rl'' (hd (kids ferrari)) = Some 9"
  "getObjectByName (objects delivered) ''wheel_rr'' (hd (kids ferrari)) = Some 11"
  using delivered_objects
  by (simp_all add: car_tree_1 car_objects_def part_def)

lemma parked_value:
  "on_load (loads showroom ! 0) ferrari delivered = Ok parked"
  "wheels parked = [Some 5, Some 7, Some 9, Some 11]"
  "map (\<lambda>r. material (objects parked r)) [1, 2, 3, 4, 5, 6, 7, 8, 9, 10, 11, 12] =
     [Some 3, Some 3, Some 0, Some 2, Some 3, Some 1, Some 3, Some 1, Some 3, Some 1,
      Some 3, Some 1]"
proof -
  have k: "kids ferrari = hd (kids ferrari) # []"
    by (simp add: car_tree_1)
  have sc: "scene delivered = Some
              \<lparr>background = Some 15658734, environment = Some ''RoomEnvironment'',
               fog = Some (15658734, 10, 50), children = [Tree 0 []]\<rparr>"
    by (simp add: delivered_fields showroom_fields)
  note v = on_load_value [OF k delivered_lookups(1-6) sc, of "loads showroom ! 0"]
  show "on_load (loads showroom ! 0) ferrari delivered = Ok parked"
    unfolding parked_def v by simp
  show "wheels parked = [Some 5, Some 7, Some 9, Some 11]"
    unfolding parked_def v delivered_lookups by (simp add: delivered_fields)
  show "map (\<lambda>r. material (objects parked r)) [1, 2, 3, 4, 5, 6, 7, 8, 9, 10, 11, 12] =
     [Some 3, Some 3, Some 0, Some 2, Some 3, Some 1, Some 3, Some 1, Some 3, Some 1,
      Some 3, Some 1]"
    unfolding parked_def v using delivered_objects
    by (simp add: delivered_fields showroom_fields with_material_def
        car_objects_def part_def)
qed

lemma showroom_inputs:
  "''body-color'' \<in> set (element_ids showroom)"
  "''details-color'' \<in> set (element_ids showroom)"
  "''glass-color'' \<in> set (element_ids showroom)"
  by (simp_all add: showroom_fields page_inputs)

lemma showroom2_fields:
  "createScene ''rendererCanvas'' showroom = Ok showroom2"
  "wheels showroom2 = []" "next_object showroom2 = 2" "next_material showroom2 = 6"
  "scene showroom2 \<noteq> None"
  "loads showroom2 =
     [\<lparr>bodyMaterial = 0, detailsMaterial = 1, glassMaterial = 2,
       shadow = ''assets/gltf/ferrari_ao.png''\<rparr>,
      \<lparr>bodyMaterial = 3, detailsMaterial = 4, glassMaterial = 5,
       shadow = ''assets/gltf/ferrari_ao.png''\<rparr>]"
  by (simp_all add: showroom2_def createScene_value [OF showroom_inputs] showroom_fields)

lemma delivered2_fields:
  "wheels delivered2 = []" "next_object delivered2 = 14" "next_material delivered2 = 7"
  "scene delivered2 \<noteq> None"
  "map (objects delivered2) [2, 3, 4, 5, 6, 7, 8, 9, 10, 11, 12, 13] = car_objects 6"
  by (simp_all add: delivered2_def deliver_def car_objects_def new_object_def new_material_def
      showroom2_fields)

lemma car_tree_2:
  "car_tree 2 =
     Tree 2 [Tree 3 [Tree 4 [], Tree 5 [], Tree 6 [Tree 7 []], Tree 8 [Tree 9 []],
                     Tree 10 [Tree 11 []], Tree 12 [Tree 13 []]]]"
  by (simp add: car_tree_def)

lemma delivered2_lookups:
  "getObjectByName (objects delivered2) ''body'' (hd (kids (car_tree 2))) = Some 4"
  "getObjectByName (objects delivered2) ''rim_fl'' (hd (kids (car_tree 2))) = Some 7"
  "getObjectByName (objects delivered2) ''rim_fr'' (hd (kids (car_tree 2))) = Some 9"
  "getObjectByName (objects delivered2) ''rim_rl'' (hd (kids (car_tree 2))) = Some 11"
  "getObjectByName (objects delivered2) ''rim_rr'' (hd (kids (car_tree 2))) = Some 13"
  "getObjectByName (objects delivered2) ''glass'' (hd (kids (car_tree 2))) = Some 5"
  using delivered2_fields(5)
  by (simp_all add: car_tree_2 car_objects_def part_def)

lemma parked2_fields:
  "on_load (loads showroom2 ! 0) (car_tree 2) delivered2 = Ok parked2"
  "next_object parked2 = 15" "next_material parked2 = 8" "scene parked2 \<noteq> None"
proof -
  have k: "kids (car_tree 2) = hd (kids (car_tree 2)) # []"
    by (simp add: car_tree_2)
  from delivered2_fields(4) obtain sc where sc: "scene delivered2 = Some sc" by auto
  note v = on_load_value [OF k delivered2_lookups sc, of "loads showroom2 ! 0"]
  show "on_load (loads showroom2 ! 0) (car_tree 2) delivered2 = Ok parked2"
    unfolding parked2_def delivered2_def [symmetric] v by simp
  show "next_object parked2 = 15" "next_material parked2 = 8" "scene parked2 \<noteq> None"
    unfolding parked2_def delivered2_def [symmetric] v
    by (simp_all add: delivered2_fields)
qed

lemma delivered3_fields:
  "scene delivered3 \<noteq> None"
  "map (objects delivered3) [15, 16, 17, 18, 19, 20, 21, 22, 23, 24, 25, 26] = car_objects 8"
  by (simp_all add: delivered3_def deliver_def car_objects_def new_object_def new_material_def
      parked2_fields)

lemma car_tree_15:
  "car_tree 15 =
     Tree 15 [Tree 16 [Tree 17 [], Tree 18 [], Tree 19 [Tree 20 []], Tree 21 [Tree 22 []],
                       Tree 23 [Tree 24 []], Tree 25 [Tree 26 []]]]"
  by (simp add: car_tree_def)

lemma delivered3_lookups:
  "getObjectByName (objects delivered3) ''body'' (hd (kids (car_tree 15))) = Some 17"
  "getObjectByName (objects delivered3) ''rim_fl'' (hd (kids (car_tree 15))) = Some 20"
  "getObjectByName (objects delivered3) ''rim_fr'' (hd (kids (car_tree 15))) = Some 22"
  "getObjectByName (objects delivered3) ''rim_rl'' (hd (kids (car_tree 15))) = Some 24"
  "getObjectByName (objects delivered3) ''rim_rr'' (hd (kids (car_tree 15))) = Some 26"
  "getObjectByName (objects delivered3) ''glass'' (hd (kids (car_tree 15))) = Some 18"
  using delivered3_fields(2)
  by (simp_all add: car_tree_15 car_objects_def part_def)

lemma parked3_returned:
  "on_load (last (loads showroom2)) (car_tree 15) delivered3 = Ok parked3"
proof -
  have k: "kids (car_tree 15) = hd (kids (car_tree 15)) # []"
    by (simp add: car_tree_15)
  from delivered3_fields(1) obtain sc where sc: "scene delivered3 = Some sc" by auto
  note v = on_load_value [OF k delivered3_lookups sc, of "last (loads showroom2)"]
  show ?thesis
    unfolding parked3_def delivered3_def [symmetric] v by simp
qed

lemma delivered_renamed_objects:
  "map (objects delivered_renamed) [1, 2, 3, 4, 5, 6, 7, 8, 9, 10, 11, 12] = renamed_objects 3"
  by (simp add: delivered_renamed_def deliver_def renamed_objects_def new_object_def
      new_material_def showroom_fields)

lemma delivered_renamed_lookups:
  "getObjectByName (objects delivered_renamed) ''body'' (hd (kids ferrari)) = Some 3"
  "getObjectByName (objects delivered_renamed) ''rim_fl'' (hd (kids ferrari)) = Some 6"
  "getObjectByName (objects delivered_renamed) ''rim_fr'' (hd (kids ferrari)) = Some 8"
  "getObjectByName (objects delivered_renamed) ''rim_rl'' (hd (kids ferrari)) = Some 10"
  "getObjectByName (objects delivered_renamed) ''rim_rr'' (hd (kids ferrari)) = Some 12"
  "getObjectByName (objects delivered_renamed) ''glass'' (hd (kids ferrari)) = Some 4"
  "wheel_lookups (objects delivered_renamed) (hd (kids ferrari)) = [None, Some 7, Some 9, Some 11]"
  using delivered_renamed_objects
  by (simp_all add: wheel_lookups_def car_tree_1 renamed_objects_def part_def)


lemma stalled_value:
  "on_load (loads showroom ! 0) ferrari delivered_renamed = Ok stalled"
  "wheels stalled = [None, Some 7, Some 9, Some 11]"
  "map (\<lambda>r. material (objects stalled r)) [1, 2, 3, 4, 5, 6, 7, 8, 9, 10, 11, 12] =
     [Some 3, Some 3, Some 0, Some 2, Some 3, Some 1, Some 3, Some 1, Some 3, Some 1,
      Some 3, Some 1]"
  "rotation_x (objects stalled 7) = 0"
  "element_ids stalled = element_ids page" "next_object stalled = 14"
  "next_material stalled = 5" "scene stalled \<noteq> None"
proof -
  have k: "kids ferrari = hd (kids ferrari) # []"
    by (simp add: car_tree_1)
  have d: "wheels delivered_renamed = []" "next_object delivered_renamed = 13"
    "next_material delivered_renamed = 4" "element_ids delivered_renamed = element_ids page"
    by (simp_all add: delivered_renamed_def deliver_fields showroom_fields renamed_objects_def)
  have "scene delivered_renamed = scene showroom"
    by (simp add: delivered_renamed_def deliver_fields)
  then obtain sc where sc: "scene delivered_renamed = Some sc"
    by (simp add: showroom_fields)
  note v = on_load_value [OF k delivered_renamed_lookups(1-6) sc, of "loads showroom ! 0"]
  show r: "on_load (loads showroom ! 0) ferrari delivered_renamed = Ok stalled"
    unfolding stalled_def v by simp
  from on_load_wheels [OF r] k
  have "wheels stalled = wheels delivered_renamed @
          wheel_lookups (objects delivered_renamed) (hd (kids ferrari))"
    by auto
  then show "wheels stalled = [None, Some 7, Some 9, Some 11]"
    by (simp add: d delivered_renamed_lookups)
  show "map (\<lambda>r. material (objects stalled r)) [1, 2, 3, 4, 5, 6, 7, 8, 9, 10, 11, 12] =
     [Some 3, Some 3, Some 0, Some 2, Some 3, Some 1, Some 3, Some 1, Some 3, Some 1,
      Some 3, Some 1]"
    unfolding stalled_def v using delivered_renamed_objects
    by (simp add: d showroom_fields with_material_def renamed_objects_def part_def)
  have "rotation_x (objects stalled 7) = rotation_x (objects delivered_renamed 7)"
    by (rule on_load_fields(5) [OF r]) (simp add: d)
  then show "rotation_x (objects stalled 7) = 0"
    using delivered_renamed_objects by (simp add: renamed_objects_def part_def)
  from on_load_fields(1-4) [OF r]
  show "element_ids stalled = element_ids page" "next_object stalled = 14"
    "next_material stalled = 5" "scene stalled \<noteq> None"
    by (simp_all add: d)
qed

lemma parked_fields:
  "element_ids parked = element_ids page" "next_object parked = 14"
  "next_material parked = 5" "scene parked \<noteq> None"
proof -
  have "element_ids delivered = element_ids page"
    by (simp add: delivered_def deliver_fields showroom_fields)
  with on_load_fields(1-4) [OF parked_value(1)]
  show "element_ids parked = element_ids page" "next_object parked = 14"
    "next_material parked = 5" "scene parked \<noteq> None"
    by (simp_all add: delivered_fields)
qed


lemma reopened_fields:
  "createScene ''rendererCanvas'' parked = Ok reopened"
  "wheels reopened = wheels parked" "next_object reopened = 15"
  "next_material reopened = 8" "scene reopened \<noteq> None"
proof -
  have i: "''body-color'' \<in> set (element_ids parked)"
    "''details-color'' \<in> set (element_ids parked)"
    "''glass-color'' \<in> set (element_ids parked)"
    by (simp_all add: parked_fields page_inputs)
  show "createScene ''rendererCanvas'' parked = Ok reopened"
    "wheels reopened = wheels parked" "next_object reopened = 15"
    "next_material reopened = 8" "scene reopened \<noteq> None"
    by (simp_all add: reopened_def createScene_value [OF i] parked_fields)
qed

lemma redelivered_objects:
  "map (objects redelivered) [15, 16, 17, 18, 19, 20, 21, 22, 23, 24, 25, 26] = car_objects 8"
  by (simp add: redelivered_def deliver_def car_objects_def new_object_def new_material_def
      reopened_fields)
lemma redelivered_lookups:
  "getObjectByName (objects redelivered) ''body'' (hd (kids (car_tree 15))) = Some 17"
  "getObjectByName (objects redelivered) ''rim_fl'' (hd (kids (car_tree 15))) = Some 20"
  "getObjectByName (objects redelivered) ''rim_fr'' (hd (kids (car_tree 15))) = Some 22"
  "getObjectByName (objects redelivered) ''rim_rl'' (hd (kids (car_tree 15))) = Some 24"
  "getObjectByName (objects redelivered) ''rim_rr'' (hd (kids (car_tree 15))) = Some 26"
  "getObjectByName (objects redelivered) ''glass'' (hd (kids (car_tree 15))) = Some 18"
  "wheel_lookups (objects redelivered) (hd (kids (car_tree 15))) = [Some 19, Some 21, Some 23, Some 25]"
  using redelivered_objects
  by (simp_all add: wheel_lookups_def car_tree_15 car_objects_def part_def)

lemma reparked_returned:
  "on_load (last (loads reopened)) (car_tree 15) redelivered = Ok reparked"
proof -
  have k: "kids (car_tree 15) = hd (kids (car_tree 15)) # []"
    by (simp add: car_tree_15)
  have "scene redelivered = scene reopened"
    by (simp add: redelivered_def deliver_fields)
  then obtain sc where sc: "scene redelivered = Some sc"
    using reopened_fields(5) by auto
  note v = on_load_value [OF k redelivered_lookups(1-6) sc, of "last (loads reopened)"]
  show ?thesis
    unfolding reparked_def v by simp
qed


lemma reopened_stalled_fields:
  "createScene ''rendererCanvas'' stalled = Ok reopened_stalled"
  "wheels reopened_stalled = wheels stalled" "next_object reopened_stalled = 15"
  "next_material reopened_stalled = 8" "scene reopened_stalled \<noteq> None"
proof -
  have i: "''body-color'' \<in> set (element_ids stalled)"
    "''details-color'' \<in> set (element_ids stalled)"
    "''glass-color'' \<in> set (element_ids stalled)"
    by (simp_all add: stalled_value page_inputs)
  show "createScene ''rendererCanvas'' stalled = Ok reopened_stalled"
    "wheels reopened_stalled = wheels stalled" "next_object reopened_stalled = 15"
    "next_material reopened_stalled = 8" "scene reopened_stalled \<noteq> None"
    by (simp_all add: reopened_stalled_def createScene_value [OF i] stalled_value)
qed

lemma redelivered_renamed_objects:
  "map (objects redelivered_renamed) [15, 16, 17, 18, 19, 20, 21, 22, 23, 24, 25, 26] = renamed_objects 8"
  by (simp add: redelivered_renamed_def deliver_def renamed_objects_def new_object_def new_material_def
      reopened_stalled_fields)
lemma redelivered_renamed_lookups:
  "getObjectByName (objects redelivered_renamed) ''body'' (hd (kids (car_tree 15))) = Some 17"
  "getObjectByName (objects redelivered_renamed) ''rim_fl'' (hd (kids (car_tree 15))) = Some 20"
  "getObjectByName (objects redelivered_renamed) ''rim_fr'' (hd (kids (car_tree 15))) = Some 22"
  "getObjectByName (objects redelivered_renamed) ''rim_rl'' (hd (kids (car_tree 15))) = Some 24"
  "getObjectByName (objects redelivered_renamed) ''rim_rr'' (hd (kids (car_tree 15))) = Some 26"
  "getObjectByName (objects redelivered_renamed) ''glass'' (hd (kids (car_tree 15))) = Some 18"
  "wheel_lookups (objects redelivered_renamed) (hd (kids (car_tree 15))) = [None, Some 21, Some 23, Some 25]"
  using redelivered_renamed_objects
  by (simp_all add: wheel_lookups_def car_tree_15 renamed_objects_def part_def)

lemma restalled_returned:
  "on_load (last (loads reopened_stalled)) (car_tree 15) redelivered_renamed = Ok restalled"
proof -
  have k: "kids (car_tree 15) = hd (kids (car_tree 15)) # []"
    by (simp add: car_tree_15)
  have "scene redelivered_renamed = scene reopened_stalled"
    by (simp add: redelivered_renamed_def deliver_fields)
  then obtain sc where sc: "scene redelivered_renamed = Some sc"
    using reopened_stalled_fields(5) by auto
  note v = on_load_value [OF k redelivered_renamed_lookups(1-6) sc, of "last (loads reopened_stalled)"]
  show ?thesis
    unfolding restalled_def v by simp
qed


lemma delivered2_wheel_lookups:
  "wheel_lookups (objects delivered2) (hd (kids (car_tree 2))) =
     [Some 6, Some 8, Some 10, Some 12]"
  using delivered2_fields(5)
  by (simp add: wheel_lookups_def car_tree_2 car_objects_def part_def)

lemma delivered3_wheel_lookups:
  "wheel_lookups (objects delivered3) (hd (kids (car_tree 15))) =
     [Some 19, Some 21, Some 23, Some 25]"
  using delivered3_fields(2)
  by (simp add: wheel_lookups_def car_tree_15 car_objects_def part_def)

section \<open>The properties of the service\<close>

text \<open>
  Claim C1, as the code has it. After the completion callback has run successfully on a
  service with no wheel yet, the wheel list holds exactly four entries, the results of
  looking up \<^verbatim>\<open>wheel_fl\<close>, \<^verbatim>\<open>wheel_fr\<close>, \<^verbatim>\<open>wheel_rl\<close> and \<^verbatim>\<open>wheel_rr\<close> in
  the car (the wheel object of that name, or \<^verbatim>\<open>undefined\<close> for a name the model does
  not have), and six named sub-meshes (\<^verbatim>\<open>body\<close>, the four rims and \<^verbatim>\<open>glass\<close>) refer
  to the body, details and glass materials of the service instead of what they were
  loaded with. The objects of the model are in the store when the callback runs.
\<close>

theorem on_load_postcondition:
  assumes "on_load c gltf s = Ok s'"
      and "wheels s = []"
      and "\<forall>r \<in> set (refs gltf). r < next_object s"
  shows "\<exists>carModel others. kids gltf = carModel # others \<and>
           wheels s' = [getObjectByName (objects s) ''wheel_fl'' carModel,
                        getObjectByName (objects s) ''wheel_fr'' carModel,
                        getObjectByName (objects s) ''wheel_rl'' carModel,
                        getObjectByName (objects s) ''wheel_rr'' carModel] \<and>
           length (wheels s') = 4 \<and>
           assigned (objects s) carModel ''body'' (bodyMaterial c) s' \<and>
           assigned (objects s) carModel ''rim_fl'' (detailsMaterial c) s' \<and>
           assigned (objects s) carModel ''rim_fr'' (detailsMaterial c) s' \<and>
           assigned (objects s) carModel ''rim_rl'' (detailsMaterial c) s' \<and>
           assigned (objects s) carModel ''rim_rr'' (detailsMaterial c) s' \<and>
           assigned (objects s) carModel ''glass'' (glassMaterial c) s'"
proof -
  from assms(1) obtain car others s1 s2 s3 s4 s5 s6 where
    k: "kids gltf = car # others"
    and 1: "set_material car ''body'' (bodyMaterial c) s = Ok s1"
    and 2: "set_material car ''rim_fl'' (detailsMaterial c) s1 = Ok s2"
    and 3: "set_material car ''rim_fr'' (detailsMaterial c) s2 = Ok s3"
    and 4: "set_material car ''rim_rl'' (detailsMaterial c) s3 = Ok s4"
    and 5: "set_material car ''rim_rr'' (detailsMaterial c) s4 = Ok s5"
    and 6: "set_material car ''glass'' (glassMaterial c) s5 = Ok s6"
    and 7: "add_shadow (shadow c) car (push_wheels car s6) = Ok s'"
    by (rule on_load_Ok)
  have n1: "\<forall>x. name (objects s1 x) = name (objects s x)"
    using set_material_names [OF 1] by simp
  have n2: "\<forall>x. name (objects s2 x) = name (objects s x)"
    using set_material_names [OF 2] n1 by simp
  have n3: "\<forall>x. name (objects s3 x) = name (objects s x)"
    using set_material_names [OF 3] n2 by simp
  have n4: "\<forall>x. name (objects s4 x) = name (objects s x)"
    using set_material_names [OF 4] n3 by simp
  have n5: "\<forall>x. name (objects s5 x) = name (objects s x)"
    using set_material_names [OF 5] n4 by simp
  have n6: "\<forall>x. name (objects s6 x) = name (objects s x)"
    using set_material_names [OF 6] n5 by simp
  have w6: "wheels s6 = []" "next_object s6 = next_object s"
    using set_material_rest [OF 1] set_material_rest [OF 2] set_material_rest [OF 3]
      set_material_rest [OF 4] set_material_rest [OF 5] set_material_rest [OF 6] assms(2)
    by simp_all
  have car: "set (refs car) \<subseteq> set (refs gltf)"
    using k by (cases gltf) auto
  have fresh: "\<forall>r \<in> set (refs car). r < next_object (push_wheels car s6)"
    using car assms(3) w6 by (auto simp: push_wheels_def)
  have look: "getObjectByName (objects s6) nm car = getObjectByName (objects s) nm car" for nm
    using n6 by (rule same_names)
  have wheels: "wheels s' = [getObjectByName (objects s) ''wheel_fl'' car,
                        getObjectByName (objects s) ''wheel_fr'' car,
                        getObjectByName (objects s) ''wheel_rl'' car,
                        getObjectByName (objects s) ''wheel_rr'' car]"
    using add_shadow_wheels [OF 7] w6 by (simp add: push_wheels_def look)
  have last: "assigned (objects s) car nm m s6 \<Longrightarrow> assigned (objects s) car nm m s'" for nm m
    using add_shadow_keeps [OF 7 _ fresh] by (simp add: push_wheels_keeps)
  have body: "assigned (objects s) car ''body'' (bodyMaterial c) s6"
    by (intro set_material_keeps [OF 6] set_material_keeps [OF 5] set_material_keeps [OF 4]
        set_material_keeps [OF 3] set_material_keeps [OF 2] set_material_assigns [OF 1])
      simp_all
  have fl: "assigned (objects s) car ''rim_fl'' (detailsMaterial c) s6"
    by (intro set_material_keeps [OF 6] set_material_keeps [OF 5] set_material_keeps [OF 4]
        set_material_keeps [OF 3] set_material_assigns [OF 2] n1) simp_all
  have fr: "assigned (objects s) car ''rim_fr'' (detailsMaterial c) s6"
    by (intro set_material_keeps [OF 6] set_material_keeps [OF 5] set_material_keeps [OF 4]
        set_material_assigns [OF 3] n2) simp_all
  have rl: "assigned (objects s) car ''rim_rl'' (detailsMaterial c) s6"
    by (intro set_material_keeps [OF 6] set_material_keeps [OF 5]
        set_material_assigns [OF 4] n3) simp_all
  have rr: "assigned (objects s) car ''rim_rr'' (detailsMaterial c) s6"
    by (intro set_material_keeps [OF 6] set_material_assigns [OF 5] n4) simp_all
  have glass: "assigned (objects s) car ''glass'' (glassMaterial c) s6"
    by (intro set_material_assigns [OF 6] n5)
  show ?thesis
    using k wheels body fl fr rl rr glass by (auto intro: last)
qed

text \<open>On the example model: the callback returns, the wheels are the objects 5, 7, 9 and 11, and the body, the rims and the glass refer to the materials 0, 1 and 2.\<close>

theorem on_load_postcondition_witness:
  "on_load (loads showroom ! 0) ferrari delivered = Ok parked \<and>
   wheels delivered = [] \<and>
   list_all (\<lambda>r. r < next_object delivered) (refs ferrari) \<and>
   wheels parked = [Some 5, Some 7, Some 9, Some 11] \<and>
   length (wheels parked) = 4 \<and>
   assigned (objects delivered) (hd (kids ferrari)) ''body'' 0 parked \<and>
   assigned (objects delivered) (hd (kids ferrari)) ''rim_fl'' 1 parked \<and>
   assigned (objects delivered) (hd (kids ferrari)) ''rim_fr'' 1 parked \<and>
   assigned (objects delivered) (hd (kids ferrari)) ''rim_rl'' 1 parked \<and>
   assigned (objects delivered) (hd (kids ferrari)) ''rim_rr'' 1 parked \<and>
   assigned (objects delivered) (hd (kids ferrari)) ''glass'' 2 parked"
proof -
  have fresh: "\<forall>r \<in> set (refs ferrari). r < next_object delivered"
    by (simp add: car_tree_1 delivered_fields)
  have c: "loads showroom ! 0 = \<lparr>bodyMaterial = 0, detailsMaterial = 1, glassMaterial = 2,
                shadow = ''assets/gltf/ferrari_ao.png''\<rparr>"
    by (simp add: showroom_fields)
  from on_load_postcondition [OF parked_value(1) delivered_fields(1) fresh]
  obtain carModel others where
    k: "kids ferrari = carModel # others"
    and a: "assigned (objects delivered) carModel ''body'' (bodyMaterial (loads showroom ! 0)) parked"
        "assigned (objects delivered) carModel ''rim_fl'' (detailsMaterial (loads showroom ! 0)) parked"
        "assigned (objects delivered) carModel ''rim_fr'' (detailsMaterial (loads showroom ! 0)) parked"
        "assigned (objects delivered) carModel ''rim_rl'' (detailsMaterial (loads showroom ! 0)) parked"
        "assigned (objects delivered) carModel ''rim_rr'' (detailsMaterial (loads showroom ! 0)) parked"
        "assigned (objects delivered) carModel ''glass'' (glassMaterial (loads showroom ! 0)) parked"
    and w: "length (wheels parked) = 4"
    by blast
  from k have "carModel = hd (kids ferrari)" by simp
  with a have
    "assigned (objects delivered) (hd (kids ferrari)) ''body'' 0 parked"
    "assigned (objects delivered) (hd (kids ferrari)) ''rim_fl'' 1 parked"
    "assigned (objects delivered) (hd (kids ferrari)) ''rim_fr'' 1 parked"
    "assigned (objects delivered) (hd (kids ferrari)) ''rim_rl'' 1 parked"
    "assigned (objects delivered) (hd (kids ferrari)) ''rim_rr'' 1 parked"
    "assigned (objects delivered) (hd (kids ferrari)) ''glass'' 2 parked"
    by (simp_all add: c)
  with w fresh show ?thesis
    by (simp add: parked_value delivered_fields list_all_iff)
qed

text \<open>
  On the model whose front left wheel has another name, the callback returns all the
  same: it replaces the material of six objects (the body, the glass and the four
  rims), not of five, and the first of the four entries it registers is no wheel object
  but \<^verbatim>\<open>undefined\<close>.
\<close>

theorem on_load_six_materials_undefined_wheel:
  "on_load (loads showroom ! 0) ferrari delivered_renamed = Ok stalled \<and>
   wheels delivered_renamed = [] \<and>
   list_all (\<lambda>r. r < next_object delivered_renamed) (refs ferrari) \<and>
   wheels stalled = [None, Some 7, Some 9, Some 11] \<and>
   replaced delivered_renamed stalled (refs ferrari) = [3, 4, 6, 8, 10, 12] \<and>
   length (replaced delivered_renamed stalled (refs ferrari)) \<noteq> 5"
proof -
  have d: "wheels delivered_renamed = []" "next_object delivered_renamed = 13"
    by (simp_all add: delivered_renamed_def deliver_fields showroom_fields renamed_objects_def)
  have "replaced delivered_renamed stalled (refs ferrari) = [3, 4, 6, 8, 10, 12]"
    using stalled_value(3) delivered_renamed_objects
    by (simp add: replaced_def car_tree_1 renamed_objects_def part_def)
  moreover have "list_all (\<lambda>r. r < next_object delivered_renamed) (refs ferrari)"
    by (simp add: car_tree_1 d)
  ultimately show ?thesis by (simp add: stalled_value d)
qed

text \<open>
  Claim C2, as the code has it. Whatever the clock \<open>now\<close> (milliseconds, so
  \<open>t = now / 1000\<close> seconds, in particular for every \<open>t \<ge> 0\<close>), a call of \<open>render\<close>
  on a wheel list whose entries are all objects sets the rotation about the x axis of
  every registered wheel to \<open>(- t) * pi\<close>, a function of the elapsed time only. This
  holds of the state the call leaves, whether it goes on to draw or throws later for
  want of a grid or a renderer.
\<close>

theorem render_rotates_wheels:
  assumes "None \<notin> set (wheels s)"
  shows "\<forall>r. Some r \<in> set (wheels s) \<longrightarrow>
           rotation_x (objects (state_of (render now s)) r) = (- (now / 1000)) * pi"
  using assms
  by (simp add: render_def Let_def rotate_wheels_all rotation_scroll_grid)

text \<open>On the example model, two seconds after the origin of the clock: each wheel is rotated by \<open>- 2 * pi\<close>.\<close>

theorem render_rotates_wheels_witness:
  "wheels parked = [Some 5, Some 7, Some 9, Some 11] \<and>
   rotation_x (objects (state_of (render 2000 parked)) 5) = - 2 * pi \<and>
   rotation_x (objects (state_of (render 2000 parked)) 7) = - 2 * pi \<and>
   rotation_x (objects (state_of (render 2000 parked)) 9) = - 2 * pi \<and>
   rotation_x (objects (state_of (render 2000 parked)) 11) = - 2 * pi"
  using render_rotates_wheels [of parked 2000]
  by (simp add: parked_value)

text \<open>
  On the wheel list that the callback builds from the model whose front left wheel has
  another name, \<open>render\<close> throws at the first entry, and the registered wheel 7 keeps
  the rotation 0 two seconds after the origin of the clock.
\<close>

theorem render_stops_at_undefined_wheel:
  "on_load (loads showroom ! 0) ferrari delivered_renamed = Ok stalled \<and>
   wheels stalled = [None, Some 7, Some 9, Some 11] \<and>
   \<not> returned (render 2000 stalled) \<and>
   rotation_x (objects (state_of (render 2000 stalled)) 7) = 0 \<and>
   rotation_x (objects (state_of (render 2000 stalled)) 7) \<noteq> (- (2000 / 1000)) * pi"
  by (simp add: stalled_value render_def Let_def)

text \<open>
  Claim C3. When the window reports the inner size \<open>(W, H)\<close> with \<open>H \<noteq> 0\<close> and the
  scene has been created (there is a camera and a renderer), \<open>resize\<close> returns, the
  aspect ratio of the camera is \<open>W / H\<close> and the output size of the renderer is \<open>(W, H)\<close>.
\<close>

theorem resize_sets_aspect_and_size:
  assumes "innerWidth s = W" and "innerHeight s = H" and "H \<noteq> 0"
      and "camera s \<noteq> None" and "renderer s \<noteq> None"
  shows "returned (resize s) \<and>
         map_option aspect (camera (state_of (resize s))) = Some (Finite (real W / real H)) \<and>
         map_option output_size (renderer (state_of (resize s))) = Some (W, H)"
  using assms
  by (auto simp: resize_def Let_def js_div_def updateProjectionMatrix_def setSize_def)

text \<open>On the example page, a window of 1280 by 720.\<close>

theorem resize_sets_aspect_and_size_witness:
  "innerWidth showroom = 1280 \<and> innerHeight showroom = 720 \<and>
   returned (resize showroom) \<and>
   map_option aspect (camera (state_of (resize showroom))) = Some (Finite (1280 / 720)) \<and>
   map_option output_size (renderer (state_of (resize showroom))) = Some (1280, 720)"
  using resize_sets_aspect_and_size [of showroom 1280 720]
  by (simp add: showroom_fields)

text \<open>
  Claim C4, the part the code satisfies and the part it does not. After \<open>createScene\<close>
  on a page without listeners, an event \<^verbatim>\<open>change\<close> with value \<open>v\<close> on the body input
  sets the colour of the body material to \<open>v\<close>, and an event \<^verbatim>\<open>input\<close> on the details
  or glass input does the same for its material. The kind of event is not the same: the
  body input ignores \<^verbatim>\<open>input\<close> events and the other two ignore \<^verbatim>\<open>change\<close> events.
\<close>

theorem color_inputs_differ_in_event_kind:
  assumes "createScene cv s0 = Ok s" and "listeners s0 = []"
  shows "color (materials (step (ColorInput ''body-color'' ''change'' v) s)
                  (bodyMaterial (last (loads s)))) = v \<and>
         color (materials (step (ColorInput ''details-color'' ''input'' v) s)
                  (detailsMaterial (last (loads s)))) = v \<and>
         color (materials (step (ColorInput ''glass-color'' ''input'' v) s)
                  (glassMaterial (last (loads s)))) = v \<and>
         step (ColorInput ''body-color'' ''input'' v) s = s \<and>
         step (ColorInput ''details-color'' ''change'' v) s = s \<and>
         step (ColorInput ''glass-color'' ''change'' v) s = s"
proof -
  from createScene_Ok_inputs [OF assms(1)] have
    "createScene cv s0 = Ok (state_of (createScene cv s0))"
    "listeners (state_of (createScene cv s0)) =
       [(Element ''body-color'', ''change'', SetColor (next_material s0)),
        (Element ''details-color'', ''input'', SetColor (Suc (next_material s0))),
        (Element ''glass-color'', ''input'', SetColor (Suc (Suc (next_material s0))))]"
    "last (loads (state_of (createScene cv s0))) =
       \<lparr>bodyMaterial = next_material s0, detailsMaterial = Suc (next_material s0),
        glassMaterial = Suc (Suc (next_material s0)),
        shadow = ''assets/gltf/ferrari_ao.png''\<rparr>"
    by (simp_all add: createScene_value assms(2))
  with assms(1) have
    l: "listeners s =
       [(Element ''body-color'', ''change'', SetColor (next_material s0)),
        (Element ''details-color'', ''input'', SetColor (Suc (next_material s0))),
        (Element ''glass-color'', ''input'', SetColor (Suc (Suc (next_material s0))))]"
    and c: "last (loads s) =
       \<lparr>bodyMaterial = next_material s0, detailsMaterial = Suc (next_material s0),
        glassMaterial = Suc (Suc (next_material s0)),
        shadow = ''assets/gltf/ferrari_ao.png''\<rparr>"
    by simp_all
  show ?thesis
    by (simp add: dispatchEvent_def l c)
qed

text \<open>On the example page, with the colour 0x0000ff.\<close>

theorem color_inputs_differ_in_event_kind_witness:
  "createScene ''rendererCanvas'' page = Ok showroom \<and> listeners page = [] \<and>
   color (materials (step (ColorInput ''body-color'' ''change'' 255) showroom) 0) = 255 \<and>
   color (materials (step (ColorInput ''details-color'' ''input'' 255) showroom) 1) = 255 \<and>
   color (materials (step (ColorInput ''glass-color'' ''input'' 255) showroom) 2) = 255 \<and>
   step (ColorInput ''body-color'' ''input'' 255) showroom = showroom \<and>
   step (ColorInput ''details-color'' ''change'' 255) showroom = showroom \<and>
   step (ColorInput ''glass-color'' ''change'' 255) showroom = showroom"
  using color_inputs_differ_in_event_kind [OF showroom_returned, of 255]
  by (simp add: showroom_returned page_fields showroom_fields)

text \<open>
  Claim C5, as the code has it. When one render loop is running (every pending frame
  request is the one recorded in \<open>frameId\<close>, and no listener can start another loop:
  the only listeners that call \<open>render\<close> are those \<open>animate\<close> registered for
  \<^verbatim>\<open>DOMContentLoaded\<close>, which has been dispatched), then after \<open>ngOnDestroy\<close> and
  whatever the browser does next, no frame request is pending, none has been made (the
  counter of requests has not moved) and no draw call has been added.
\<close>

theorem no_frame_after_destroy:
  assumes "single_loop s"
  shows "frame_requests (run es (state_of (ngOnDestroy s))) = [] \<and>
         next_request (run es (state_of (ngOnDestroy s))) = next_request s \<and>
         draws (run es (state_of (ngOnDestroy s))) = draws s"
proof -
  have "quiet (state_of (ngOnDestroy s))"
    using assms by (rule ngOnDestroy_quiet)
  from run_quiet [OF this, of es]
  have "quiet (run es (state_of (ngOnDestroy s)))"
    and "next_request (run es (state_of (ngOnDestroy s))) = next_request (state_of (ngOnDestroy s))"
    and "draws (run es (state_of (ngOnDestroy s))) = draws (state_of (ngOnDestroy s))"
    by simp_all
  moreover have "next_request (state_of (ngOnDestroy s)) = next_request s"
      "draws (state_of (ngOnDestroy s)) = draws s"
    by (simp_all add: ngOnDestroy_def cancelAnimationFrame_def split: option.splits)
  ultimately show ?thesis by (simp add: quiet_def)
qed

text \<open>On the example page, the component initialised once: request 1 is pending at the teardown, and neither that frame nor a resize nor a colour event draws afterwards.\<close>

theorem no_frame_after_destroy_witness:
  "single_loop visited \<and> frame_requests visited = [1] \<and>
   frame_requests (run [AnimationFrame 1 16, WindowResized 800 600,
      ColorInput ''body-color'' ''change'' 255] (state_of (ngOnDestroy visited))) = [] \<and>
   next_request (run [AnimationFrame 1 16, WindowResized 800 600,
      ColorInput ''body-color'' ''change'' 255] (state_of (ngOnDestroy visited))) = 2 \<and>
   draws (run [AnimationFrame 1 16, WindowResized 800 600,
      ColorInput ''body-color'' ''change'' 255] (state_of (ngOnDestroy visited))) = draws visited"
proof -
  have "single_loop visited"
    by (simp add: single_loop_def unarmed_def visited_fields)
  from this no_frame_after_destroy [OF this, of "[AnimationFrame 1 16, WindowResized 800 600,
      ColorInput ''body-color'' ''change'' 255]"]
  show ?thesis by (simp add: visited_fields)
qed

text \<open>On the example page, the component initialised twice: requests 1 and 2 are pending, the teardown cancels request 2 alone, and when request 1 is run \<open>render\<close> draws and requests frame 3.\<close>

theorem second_loop_survives_destroy:
  "frame_requests revisited = [1, 2] \<and> frameId revisited = Some 2 \<and>
   frame_requests (state_of (ngOnDestroy revisited)) = [1] \<and>
   frame_requests (step (AnimationFrame 1 16) (state_of (ngOnDestroy revisited))) = [3] \<and>
   length (draws (step (AnimationFrame 1 16) (state_of (ngOnDestroy revisited)))) =
     Suc (length (draws (state_of (ngOnDestroy revisited))))"
proof -
  obtain g r sc c where
    f: "grid revisited = Some g" "renderer revisited = Some r" "scene revisited = Some sc"
       "camera revisited = Some c"
    using revisited_fields by auto
  have d: "state_of (ngOnDestroy revisited) = revisited\<lparr>frame_requests := [1]\<rparr>"
    by (simp add: ngOnDestroy_def cancelAnimationFrame_def revisited_fields)
  show ?thesis
    unfolding d
    by (simp add: revisited_fields render_Ok [where g = g and r = r and sc = sc and c = c] f)
qed

text \<open>
  Claim C6. After \<open>createScene\<close> on a service without wheels, and as long as no model
  has arrived, every call of \<open>render\<close>, at whatever clock values \<open>ts\<close>, returns without
  throwing, and each one draws the scene that holds the grid alone, on the background
  0xeeeeee.
\<close>

theorem render_without_model:
  assumes "createScene cv s0 = Ok s" and "wheels s0 = []"
  shows "\<exists>s' g sc c. renders ts s = Ok s' \<and> grid s = Some g \<and> scene s = Some sc \<and>
           camera s = Some c \<and> children sc = [Tree g []] \<and>
           background sc = Some 15658734 \<and>
           draws s' = draws s @ replicate (length ts) \<lparr>drawn_scene = sc, drawn_camera = c\<rparr>"
proof -
  from createScene_Ok_inputs [OF assms(1)]
  have "createScene cv s0 = Ok (state_of (createScene cv s0))"
    and "wheels (state_of (createScene cv s0)) = wheels s0"
    and "grid (state_of (createScene cv s0)) = Some (next_object s0)"
    and "renderer (state_of (createScene cv s0)) \<noteq> None"
    and "camera (state_of (createScene cv s0)) \<noteq> None"
    and "scene (state_of (createScene cv s0)) =
           Some \<lparr>background = Some 15658734, environment = Some ''RoomEnvironment'',
                 fog = Some (15658734, 10, 50), children = [Tree (next_object s0) []]\<rparr>"
    by (simp_all add: createScene_value)
  with assms obtain r c where
    f: "wheels s = []" "grid s = Some (next_object s0)" "renderer s = Some r"
       "camera s = Some c"
       "scene s = Some \<lparr>background = Some 15658734, environment = Some ''RoomEnvironment'',
                   fog = Some (15658734, 10, 50), children = [Tree (next_object s0) []]\<rparr>"
    by auto
  from renders_Ok [OF f(1) f(2) f(3) f(5) f(4), of ts] f show ?thesis by auto
qed

text \<open>On the example page, three frames: each draws the grid alone.\<close>

theorem render_without_model_witness:
  "createScene ''rendererCanvas'' page = Ok showroom \<and> wheels page = [] \<and>
   returned (renders [0, 16, 33] showroom) \<and>
   map (\<lambda>d. children (drawn_scene d)) (draws (state_of (renders [0, 16, 33] showroom))) =
     [[Tree 0 []], [Tree 0 []], [Tree 0 []]]"
  using render_without_model [OF showroom_returned, of "[0, 16, 33]"]
  by (auto simp: showroom_returned page_fields showroom_fields numeral_3_eq_3)

text \<open>
  Claim C7. If one of the three colour inputs is absent from the document, \<open>createScene\<close>
  throws (the TypeError of dereferencing \<^verbatim>\<open>null\<close>) before it assigns the canvas, the
  renderer, the camera, the controls, the scene or the grid and before it requests the
  model: these are as they were, so unassigned on a new service.
\<close>

theorem createScene_missing_input:
  assumes "\<not> {''body-color'', ''details-color'', ''glass-color''} \<subseteq> set (element_ids s)"
  shows "\<exists>s'. createScene cv s = Throw TypeError s' \<and> canvas s' = canvas s \<and>
           renderer s' = renderer s \<and> camera s' = camera s \<and> controls s' = controls s \<and>
           scene s' = scene s \<and> grid s' = grid s \<and> loads s' = loads s"
  using assms
  by (auto simp add: createScene_def Let_def bind_color_inputs_def getElementById_def
      new_material_def addEventListener_def)

text \<open>On the example page without the glass input.\<close>

theorem createScene_missing_input_witness:
  "''glass-color'' \<notin> set (element_ids bare_page) \<and>
   (\<exists>s'. createScene ''rendererCanvas'' bare_page = Throw TypeError s' \<and>
      canvas s' = None \<and> renderer s' = None \<and> camera s' = None \<and> controls s' = None \<and>
      scene s' = None \<and> grid s' = None \<and> loads s' = [])"
proof -
  have a: "''glass-color'' \<notin> set (element_ids bare_page)"
    by (simp add: bare_page_def)
  then have "\<not> {''body-color'', ''details-color'', ''glass-color''} \<subseteq> set (element_ids bare_page)"
    by simp
  from createScene_missing_input [OF this, of "''rendererCanvas''"] a
  show ?thesis by (simp add: bare_page_def page_fields)
qed

text \<open>
  Claim C8. \<open>resize\<close> changes the state in the camera and the renderer only; of the
  camera it leaves the field of view, the near and far planes and the position as they
  were (the aspect ratio and the projection matrix are the other two fields), and of the
  renderer everything but the output size. This holds whether the call returns or throws.
\<close>

theorem resize_frame:
  "state_of (resize s) =
      s\<lparr>camera := camera (state_of (resize s)), renderer := renderer (state_of (resize s))\<rparr> \<and>
   map_option fov (camera (state_of (resize s))) = map_option fov (camera s) \<and>
   map_option near (camera (state_of (resize s))) = map_option near (camera s) \<and>
   map_option far (camera (state_of (resize s))) = map_option far (camera s) \<and>
   map_option position (camera (state_of (resize s))) = map_option position (camera s) \<and>
   map_option (\<lambda>r. r\<lparr>output_size := (0, 0)\<rparr>) (renderer (state_of (resize s))) =
     map_option (\<lambda>r. r\<lparr>output_size := (0, 0)\<rparr>) (renderer s)"
  by (simp add: resize_def Let_def updateProjectionMatrix_def setSize_def split: option.splits)

text \<open>
  Claim C9, as the code has it. \<open>createScene\<close> leaves the wheel list as it is, whether
  it returns or throws, and each successful run of the completion callback appends four
  entries, the results of the four lookups in the model that has arrived. So when
  \<open>createScene\<close> has run twice on a service that had no wheel and both models have
  arrived (the loader having put their objects in the store), the second call of
  \<open>createScene\<close> before or after the first model, the wheel list holds eight entries:
  the lookups in the first model followed by the lookups in the second, eight objects
  when both models have the four wheel names.
\<close>

theorem wheels_accumulate:
  "wheels (state_of (createScene cv s)) = wheels s \<and>
   (on_load c gltf s = Ok s' \<longrightarrow>
      (\<exists>carModel others. kids gltf = carModel # others \<and>
         wheels s' = wheels s @ wheel_lookups (objects s) carModel)) \<and>
   (wheels s0 = [] \<and> createScene cv1 s0 = Ok s1 \<and> createScene cv2 s1 = Ok s2 \<and>
    on_load c1 gltf1 (deliver ms1 obs1 s2) = Ok s3 \<and>
    on_load c2 gltf2 (deliver ms2 obs2 s3) = Ok s4 \<longrightarrow>
      (\<exists>car1 rest1 car2 rest2. kids gltf1 = car1 # rest1 \<and> kids gltf2 = car2 # rest2 \<and>
         wheels s4 = wheel_lookups (objects (deliver ms1 obs1 s2)) car1 @
                     wheel_lookups (objects (deliver ms2 obs2 s3)) car2 \<and>
         length (wheels s4) = 8)) \<and>
   (wheels s0 = [] \<and> createScene cv1 s0 = Ok s1 \<and>
    on_load c1 gltf1 (deliver ms1 obs1 s1) = Ok s2 \<and> createScene cv2 s2 = Ok s3 \<and>
    on_load c2 gltf2 (deliver ms2 obs2 s3) = Ok s4 \<longrightarrow>
      (\<exists>car1 rest1 car2 rest2. kids gltf1 = car1 # rest1 \<and> kids gltf2 = car2 # rest2 \<and>
         wheels s4 = wheel_lookups (objects (deliver ms1 obs1 s1)) car1 @
                     wheel_lookups (objects (deliver ms2 obs2 s3)) car2 \<and>
         length (wheels s4) = 8))"
proof (intro conjI impI)
  show "wheels (state_of (createScene cv s)) = wheels s"
    by (rule createScene_wheels)
next
  assume "on_load c gltf s = Ok s'"
  then show "\<exists>carModel others. kids gltf = carModel # others \<and>
         wheels s' = wheels s @ wheel_lookups (objects s) carModel"
    by (rule on_load_wheels)
next
  assume a: "wheels s0 = [] \<and> createScene cv1 s0 = Ok s1 \<and> createScene cv2 s1 = Ok s2 \<and>
    on_load c1 gltf1 (deliver ms1 obs1 s2) = Ok s3 \<and>
    on_load c2 gltf2 (deliver ms2 obs2 s3) = Ok s4"
  then have "wheels s1 = []" using createScene_wheels [of cv1 s0] by simp
  with a have 2: "wheels s2 = []" using createScene_wheels [of cv2 s1] by simp
  from a on_load_wheels [of c1 gltf1 "deliver ms1 obs1 s2" s3] obtain car1 rest1 where
    1: "kids gltf1 = car1 # rest1"
       "wheels s3 = wheels (deliver ms1 obs1 s2) @
          wheel_lookups (objects (deliver ms1 obs1 s2)) car1"
    by blast
  from a on_load_wheels [of c2 gltf2 "deliver ms2 obs2 s3" s4] obtain car2 rest2 where
    3: "kids gltf2 = car2 # rest2"
       "wheels s4 = wheels (deliver ms2 obs2 s3) @
          wheel_lookups (objects (deliver ms2 obs2 s3)) car2"
    by blast
  from 1 2 3 have "wheels s4 = wheel_lookups (objects (deliver ms1 obs1 s2)) car1 @
                     wheel_lookups (objects (deliver ms2 obs2 s3)) car2"
    by (simp add: deliver_fields)
  with 1(1) 3(1) show "\<exists>car1 rest1 car2 rest2. kids gltf1 = car1 # rest1 \<and>
         kids gltf2 = car2 # rest2 \<and>
         wheels s4 = wheel_lookups (objects (deliver ms1 obs1 s2)) car1 @
                     wheel_lookups (objects (deliver ms2 obs2 s3)) car2 \<and>
         length (wheels s4) = 8"
    by (auto simp: length_wheel_lookups)
next
  assume a: "wheels s0 = [] \<and> createScene cv1 s0 = Ok s1 \<and>
    on_load c1 gltf1 (deliver ms1 obs1 s1) = Ok s2 \<and> createScene cv2 s2 = Ok s3 \<and>
    on_load c2 gltf2 (deliver ms2 obs2 s3) = Ok s4"
  then have 0: "wheels s1 = []" using createScene_wheels [of cv1 s0] by simp
  from a on_load_wheels [of c1 gltf1 "deliver ms1 obs1 s1" s2] obtain car1 rest1 where
    1: "kids gltf1 = car1 # rest1"
       "wheels s2 = wheels (deliver ms1 obs1 s1) @
          wheel_lookups (objects (deliver ms1 obs1 s1)) car1"
    by blast
  from a have 2: "wheels s3 = wheels s2" using createScene_wheels [of cv2 s2] by simp
  from a on_load_wheels [of c2 gltf2 "deliver ms2 obs2 s3" s4] obtain car2 rest2 where
    3: "kids gltf2 = car2 # rest2"
       "wheels s4 = wheels (deliver ms2 obs2 s3) @
          wheel_lookups (objects (deliver ms2 obs2 s3)) car2"
    by blast
  from 0 1 2 3 have "wheels s4 = wheel_lookups (objects (deliver ms1 obs1 s1)) car1 @
                     wheel_lookups (objects (deliver ms2 obs2 s3)) car2"
    by (simp add: deliver_fields)
  with 1(1) 3(1) show "\<exists>car1 rest1 car2 rest2. kids gltf1 = car1 # rest1 \<and>
         kids gltf2 = car2 # rest2 \<and>
         wheels s4 = wheel_lookups (objects (deliver ms1 obs1 s1)) car1 @
                     wheel_lookups (objects (deliver ms2 obs2 s3)) car2 \<and>
         length (wheels s4) = 8"
    by (auto simp: length_wheel_lookups)
qed

text \<open>
  On the example page, in both orders: the wheels of the first model stay in the list
  through the second \<open>createScene\<close>, and the eight entries are objects.
\<close>

theorem wheels_accumulate_witness:
  "wheels (state_of (createScene ''rendererCanvas'' parked)) = [Some 5, Some 7, Some 9, Some 11] \<and>
   wheels page = [] \<and>
   createScene ''rendererCanvas'' page = Ok showroom \<and>
   createScene ''rendererCanvas'' showroom = Ok showroom2 \<and>
   on_load (loads showroom2 ! 0) (car_tree 2) delivered2 = Ok parked2 \<and>
   on_load (last (loads showroom2)) (car_tree 15) delivered3 = Ok parked3 \<and>
   wheels parked3 =
     [Some 6, Some 8, Some 10, Some 12, Some 19, Some 21, Some 23, Some 25] \<and>
   on_load (loads showroom ! 0) ferrari delivered = Ok parked \<and>
   createScene ''rendererCanvas'' parked = Ok reopened \<and>
   on_load (last (loads reopened)) (car_tree 15) redelivered = Ok reparked \<and>
   wheels reparked =
     [Some 5, Some 7, Some 9, Some 11, Some 19, Some 21, Some 23, Some 25]"
proof -
  note a = wheels_accumulate [where cv = "''rendererCanvas''" and s = parked
      and ?s0.0 = page and ?cv1.0 = "''rendererCanvas''" and ?s1.0 = showroom
      and ?cv2.0 = "''rendererCanvas''" and ?s2.0 = showroom2
      and ?c1.0 = "loads showroom2 ! 0" and ?gltf1.0 = "car_tree 2"
      and ?ms1.0 = "[details_parameters]" and ?obs1.0 = "car_objects 6" and ?s3.0 = parked2
      and ?c2.0 = "last (loads showroom2)" and ?gltf2.0 = "car_tree 15"
      and ?ms2.0 = "[details_parameters]" and ?obs2.0 = "car_objects 8" and ?s4.0 = parked3]
  note b = wheels_accumulate [where ?s0.0 = page and ?cv1.0 = "''rendererCanvas''"
      and ?s1.0 = showroom and ?c1.0 = "loads showroom ! 0" and ?gltf1.0 = ferrari
      and ?ms1.0 = "[details_parameters]" and ?obs1.0 = "car_objects 3" and ?s2.0 = parked
      and ?cv2.0 = "''rendererCanvas''" and ?s3.0 = reopened
      and ?c2.0 = "last (loads reopened)" and ?gltf2.0 = "car_tree 15"
      and ?ms2.0 = "[details_parameters]" and ?obs2.0 = "car_objects 8" and ?s4.0 = reparked]
  have h: "wheels page = []" "createScene ''rendererCanvas'' page = Ok showroom"
    "createScene ''rendererCanvas'' showroom = Ok showroom2"
    "on_load (loads showroom2 ! 0) (car_tree 2) delivered2 = Ok parked2"
    "on_load (last (loads showroom2)) (car_tree 15) delivered3 = Ok parked3"
    "on_load (loads showroom ! 0) ferrari delivered = Ok parked"
    "createScene ''rendererCanvas'' parked = Ok reopened"
    "on_load (last (loads reopened)) (car_tree 15) redelivered = Ok reparked"
    by (simp_all only: page_fields showroom_returned showroom2_fields(1) parked2_fields(1)
        parked3_returned parked_value(1) reopened_fields(1) reparked_returned)
  have k: "kids (car_tree 2) = [hd (kids (car_tree 2))]"
    "kids (car_tree 15) = [hd (kids (car_tree 15))]" "kids ferrari = [hd (kids ferrari)]"
    by (simp_all add: car_tree_2 car_tree_15 car_tree_1)
  from a h have "wheels (state_of (createScene ''rendererCanvas'' parked)) = wheels parked"
    by blast
  moreover from a h have "\<exists>car1 rest1 car2 rest2.
      kids (car_tree 2) = car1 # rest1 \<and> kids (car_tree 15) = car2 # rest2 \<and>
      wheels parked3 = wheel_lookups (objects delivered2) car1 @
                       wheel_lookups (objects delivered3) car2"
    unfolding delivered2_def delivered3_def by blast
  then have "wheels parked3 = wheel_lookups (objects delivered2) (hd (kids (car_tree 2))) @
                       wheel_lookups (objects delivered3) (hd (kids (car_tree 15)))"
    using k by auto
  moreover from b h have "\<exists>car1 rest1 car2 rest2.
      kids ferrari = car1 # rest1 \<and> kids (car_tree 15) = car2 # rest2 \<and>
      wheels reparked = wheel_lookups (objects delivered) car1 @
                       wheel_lookups (objects redelivered) car2"
    unfolding delivered_def redelivered_def by blast
  then have "wheels reparked = wheel_lookups (objects delivered) (hd (kids ferrari)) @
                       wheel_lookups (objects redelivered) (hd (kids (car_tree 15)))"
    using k by auto
  moreover have "wheel_lookups (objects delivered) (hd (kids ferrari)) =
      [Some 5, Some 7, Some 9, Some 11]"
    by (simp add: wheel_lookups_def delivered_lookups)
  ultimately show ?thesis
    using h
    by (simp add: parked_value(2) delivered2_wheel_lookups delivered3_wheel_lookups
        redelivered_lookups(7))
qed

text \<open>
  With the model whose front left wheel has another name loaded twice, the list holds
  eight entries of which six are objects.
\<close>

theorem undefined_wheels_accumulate:
  "createScene ''rendererCanvas'' page = Ok showroom \<and>
   on_load (loads showroom ! 0) ferrari delivered_renamed = Ok stalled \<and>
   createScene ''rendererCanvas'' stalled = Ok reopened_stalled \<and>
   on_load (last (loads reopened_stalled)) (car_tree 15) redelivered_renamed = Ok restalled \<and>
   wheels restalled = [None, Some 7, Some 9, Some 11, None, Some 21, Some 23, Some 25] \<and>
   length (wheels restalled) = 8 \<and>
   length [w \<leftarrow> wheels restalled. w \<noteq> None] = 6"
proof -
  have k: "kids (car_tree 15) = [hd (kids (car_tree 15))]"
    by (simp add: car_tree_15)
  from on_load_wheels [OF restalled_returned] k
  have "wheels restalled = wheels redelivered_renamed @
          wheel_lookups (objects redelivered_renamed) (hd (kids (car_tree 15)))"
    by auto
  moreover have "wheels redelivered_renamed = wheels stalled"
    by (simp add: redelivered_renamed_def deliver_fields reopened_stalled_fields)
  ultimately have "wheels restalled =
      [None, Some 7, Some 9, Some 11, None, Some 21, Some 23, Some 25]"
    by (simp add: stalled_value redelivered_renamed_lookups)
  then show ?thesis
    by (simp add: showroom_returned stalled_value(1) reopened_stalled_fields(1)
        restalled_returned)
qed

text \<open>
  Claim C10. When no frame has been scheduled (\<open>frameId\<close> is still \<^verbatim>\<open>null\<close>),
  \<open>ngOnDestroy\<close> returns without throwing and cancels nothing: the state is as it was.
\<close>

theorem ngOnDestroy_without_frame:
  assumes "frameId s = None"
  shows "ngOnDestroy s = Ok s"
  using assms by (simp add: ngOnDestroy_def)

text \<open>On the example page, before any frame.\<close>

theorem ngOnDestroy_without_frame_witness:
  "frameId page = None \<and> ngOnDestroy page = Ok page"
  using ngOnDestroy_without_frame [of page] by (simp add: page_fields)

end
